theory Spec2Isabelle
  imports Complex_Main
begin

section \<open>Shared values: Python errors and floating-point results\<close>

text \<open>
  The exceptions that the modelled code can raise. \<open>UnboundLocalError\<close> is Python's
  undefined-name error for a local variable read before assignment (a subclass of
  \<open>NameError\<close>); \<open>NotImplementedError\<close> is what \<open>comp_func\<close> raises for an
  unknown composition operator; \<open>IndexError\<close> is the numerical engine's failure
  on an index out of range and \<open>RuntimeError\<close> its failure on shapes that do not
  fit; \<open>ValueError\<close> is numpy's failure on an empty \<open>argmax\<close>; \<open>TypeError\<close>
  is the use of \<open>None\<close> where a tensor is needed.
\<close>

datatype error =
    UnboundLocalError
  | ZeroDivisionError
  | ValueError
  | NotImplementedError
  | IndexError
  | RuntimeError
  | TypeError

text \<open>
  A float that may be non-finite. Finite values are modelled by exact reals (rounding and
  overflow are not modelled); the infinities and \<open>NaN\<close> are the non-finite values of
  IEEE arithmetic (\<open>0 ** -0.5\<close> is \<open>inf\<close>, \<open>0 * inf\<close> and the mean of an
  empty list are \<open>nan\<close>).
\<close>

datatype fval = Fin real | PInf | NInf | NaN

text \<open>Errors are threaded in the order in which the source evaluates.\<close>

definition ebind :: "error + 'a \<Rightarrow> ('a \<Rightarrow> error + 'b) \<Rightarrow> error + 'b" where
  "ebind m f = (case m of Inl e \<Rightarrow> Inl e | Inr v \<Rightarrow> f v)"

fun collect :: "(error + 'a) list \<Rightarrow> error + 'a list" where
  "collect [] = Inr []"
| "collect (x # xs) = ebind x (\<lambda>v. ebind (collect xs) (\<lambda>vs. Inr (v # vs)))"

section \<open>The training loop (loops/old_loops.py)\<close>

subsection \<open>Collaborators and parameters\<close>

text \<open>
  A batch as the sampler contract delivers it: \<open>triples\<close> with the columns subject,
  relation and qualifiers, and the multi-hot \<open>labels\<close>. The three column slices of the
  source (\<open>triples[:, 0]\<close>, \<open>triples[:, 1]\<close>, \<open>triples[:, 2:]\<close>) are the fields
  \<open>b_sub\<close>, \<open>b_rel\<close> and \<open>b_quals\<close>.
\<close>

record batch =
  b_sub :: "int list"
  b_rel :: "int list"
  b_quals :: "int list list"
  b_labels :: "real list list"

text \<open>The dictionary under \<open>'metrics'\<close> that the validation benchmark returns.\<close>

record summary =
  hits_at_1 :: real
  hits_at_3 :: real
  hits_at_5 :: real
  hits_at_10 :: real
  mrr :: real
  mr :: real

text \<open>
  The arguments of \<open>training_loop_gcn\<close>. The collaborators are functions of the place
  in the run at which they are called: \<open>data_fn e\<close> is the batch iterator that
  \<open>data_fn(data['train'])\<close> yields in epoch \<open>e\<close>; \<open>model_loss e i\<close> is the outcome of
  \<open>model(_sub, _rel, _quals)\<close>, \<open>model.loss(pred, _labels)\<close> and \<open>loss.item()\<close> on
  batch \<open>i\<close> of epoch \<open>e\<close> (an exception or the scalar loss); \<open>val_testbench e\<close> is
  what the benchmark returns when called in epoch \<open>e\<close>. \<open>scheduler\<close> tells whether a
  scheduler object was passed (\<open>False\<close> is \<open>None\<close>); \<open>early_stopping\<close> is \<open>None\<close>
  or the window size.
\<close>

record params =
  epochs :: int
  data_fn :: "nat \<Rightarrow> batch list"
  model_loss :: "nat \<Rightarrow> nat \<Rightarrow> int list \<Rightarrow> int list \<Rightarrow> int list list \<Rightarrow> real list list \<Rightarrow> error + real"
  val_testbench :: "nat \<Rightarrow> summary"
  eval_every :: int
  qualifier_aware :: bool
  grad_clipping :: bool
  early_stopping :: "int option"
  scheduler :: bool

text \<open>
  Every call that leaves the loop is recorded, in order, with the epoch (and the batch
  index) at which it is made.
\<close>

datatype event =
    DataFn nat
  | ModelTrain nat
  | ZeroGrad nat nat
  | ModelCall nat nat
  | LossBackward nat nat
  | ClipGradNorm nat nat
  | OptStep nat nat
  | NoGrad nat
  | ValTestbench nat
  | EarlyStop nat
  | SchedulerStep nat

fun epoch_of :: "event \<Rightarrow> nat" where
  "epoch_of (DataFn e) = e"
| "epoch_of (ModelTrain e) = e"
| "epoch_of (ZeroGrad e i) = e"
| "epoch_of (ModelCall e i) = e"
| "epoch_of (LossBackward e i) = e"
| "epoch_of (ClipGradNorm e i) = e"
| "epoch_of (OptStep e i) = e"
| "epoch_of (NoGrad e) = e"
| "epoch_of (ValTestbench e) = e"
| "epoch_of (EarlyStop e) = e"
| "epoch_of (SchedulerStep e) = e"

text \<open>
  The lists the loop appends to, and the trace of calls. The other lists of the source
  (\<open>train_acc\<close> and the five \<open>*_bnchmk\<close> lists) are never appended to.
\<close>

record loop_state =
  train_loss :: "fval list"
  valid_acc :: "real list"
  valid_mrr :: "real list"
  valid_mr :: "real list"
  valid_hits_3 :: "real list"
  valid_hits_5 :: "real list"
  valid_hits_10 :: "real list"
  trace :: "event list"

definition init_state :: loop_state where
  "init_state = \<lparr>train_loss = [], valid_acc = [], valid_mrr = [], valid_mr = [],
     valid_hits_3 = [], valid_hits_5 = [], valid_hits_10 = [], trace = []\<rparr>"

subsection \<open>numpy and slicing helpers\<close>

text \<open>\<open>np.mean\<close>: the mean of an empty list is \<open>nan\<close> (with a warning, no exception).\<close>

definition np_mean :: "real list \<Rightarrow> fval" where
  "np_mean xs = (if xs = [] then NaN else Fin (sum_list xs / real (length xs)))"

text \<open>
  \<open>np.argmax\<close>: the index of the first occurrence of the maximum; an empty sequence
  raises \<open>ValueError\<close>. The scan keeps the best value and its index and replaces them
  only on a strictly larger value.
\<close>

fun argmax_scan :: "real list \<Rightarrow> nat \<Rightarrow> real \<Rightarrow> nat \<Rightarrow> nat" where
  "argmax_scan [] i bv bi = bi"
| "argmax_scan (x # xs) i bv bi =
     (if bv < x then argmax_scan xs (Suc i) x i else argmax_scan xs (Suc i) bv bi)"

fun np_argmax :: "real list \<Rightarrow> error + nat" where
  "np_argmax [] = Inl ValueError"
| "np_argmax (x # xs) = Inr (argmax_scan xs 1 x 0)"

text \<open>
  Python's \<open>xs[start:]\<close>: a negative start counts from the end and is clamped at the
  beginning of the list.
\<close>

definition py_slice_from :: "int \<Rightarrow> 'a list \<Rightarrow> 'a list" where
  "py_slice_from start xs =
     (if start < 0 then drop (nat (max 0 (int (length xs) + start))) xs
      else drop (nat start) xs)"

subsection \<open>The loop\<close>

text \<open>
  The batch loop of one epoch (lines 68 to 91). \<open>_quals\<close> is assigned only under
  \<open>qualifier_aware\<close>; it is read when the arguments of \<open>model(_sub, _rel, _quals)\<close>
  are evaluated, before the model is entered. A failure carries the trace up to it.
\<close>

fun batch_loop ::
  "params \<Rightarrow> nat \<Rightarrow> nat \<Rightarrow> batch list \<Rightarrow> real list \<Rightarrow> event list
     \<Rightarrow> (error \<times> event list) + (real list \<times> event list)" where
  "batch_loop p e i [] per_epoch_loss tr = Inr (per_epoch_loss, tr)"
| "batch_loop p e i (b # bs) per_epoch_loss tr =
     (let tr1 = tr @ [ZeroGrad e i];
          quals_local = (if qualifier_aware p then Some (b_quals b) else None)
      in case quals_local of
           None \<Rightarrow> Inl (UnboundLocalError, tr1)
         | Some q \<Rightarrow>
             (case model_loss p e i (b_sub b) (b_rel b) q (b_labels b) of
                Inl err \<Rightarrow> Inl (err, tr1 @ [ModelCall e i])
              | Inr loss \<Rightarrow>
                  batch_loop p e (Suc i) bs (per_epoch_loss @ [loss])
                    (tr1 @ [ModelCall e i, LossBackward e i]
                       @ (if grad_clipping p then [ClipGradNorm e i] else [])
                       @ [OptStep e i])))"

text \<open>
  The early-stopping test of line 133, with Python's short-circuit \<open>and\<close>:
  \<open>early_stopping is not None and len(valid_mrr) >= early_stopping and
  np.argmax(valid_mrr[-early_stopping:]) == 0\<close>.
\<close>

definition early_stop_test :: "int option \<Rightarrow> real list \<Rightarrow> error + bool" where
  "early_stop_test es vmrr =
     (case es of
        None \<Rightarrow> Inr False
      | Some k \<Rightarrow>
          if int (length vmrr) \<ge> k then
            (case np_argmax (py_slice_from (- k) vmrr) of
               Inl err \<Rightarrow> Inl err
             | Inr a \<Rightarrow> Inr (a = 0))
          else Inr False)"

datatype outcome = Continue loop_state | Break loop_state

fun state_of :: "outcome \<Rightarrow> loop_state" where
  "state_of (Continue st) = st"
| "state_of (Break st) = st"

fun is_break :: "outcome \<Rightarrow> bool" where
  "is_break (Break st) = True"
| "is_break (Continue st) = False"

text \<open>Lines 142 and 143: the end of the loop body, reached unless the loop was left.\<close>

definition scheduler_step :: "params \<Rightarrow> nat \<Rightarrow> loop_state \<Rightarrow> loop_state" where
  "scheduler_step p e st =
     (if scheduler p then st\<lparr>trace := trace st @ [SchedulerStep e]\<rparr> else st)"

text \<open>Lines 99 to 113: the benchmark is called and its six metrics are appended.\<close>

definition evaluate :: "params \<Rightarrow> nat \<Rightarrow> loop_state \<Rightarrow> loop_state" where
  "evaluate p e st =
     (let summary_val = val_testbench p e
      in st\<lparr>valid_acc := valid_acc st @ [hits_at_1 summary_val],
            valid_mrr := valid_mrr st @ [mrr summary_val],
            valid_mr := valid_mr st @ [mr summary_val],
            valid_hits_3 := valid_hits_3 st @ [hits_at_3 summary_val],
            valid_hits_5 := valid_hits_5 st @ [hits_at_5 summary_val],
            valid_hits_10 := valid_hits_10 st @ [hits_at_10 summary_val],
            trace := trace st @ [NoGrad e, ValTestbench e]\<rparr>)"

text \<open>
  The body of the epoch loop (lines 60 to 143) for epoch \<open>e\<close>. \<open>e % eval_every\<close>
  raises \<open>ZeroDivisionError\<close> for \<open>eval_every = 0\<close>; Python's \<open>%\<close> and HOL's
  \<open>mod\<close> on \<open>int\<close> agree (the result has the sign of the divisor).
\<close>

definition epoch_body :: "params \<Rightarrow> nat \<Rightarrow> loop_state \<Rightarrow> (error \<times> event list) + outcome" where
  "epoch_body p e st =
     (case batch_loop p e 0 (data_fn p e) [] (trace st @ [DataFn e, ModelTrain e]) of
        Inl x \<Rightarrow> Inl x
      | Inr (per_epoch_loss, tr) \<Rightarrow>
          (let st1 = st\<lparr>train_loss := train_loss st @ [np_mean per_epoch_loss], trace := tr\<rparr>
           in if eval_every p = 0 then Inl (ZeroDivisionError, tr)
              else if int e mod eval_every p = 0 \<and> e \<ge> 1 then
                (let st2 = evaluate p e st1
                 in case early_stop_test (early_stopping p) (valid_mrr st2) of
                      Inl err \<Rightarrow> Inl (err, trace st2)
                    | Inr True \<Rightarrow> Inr (Break (st2\<lparr>trace := trace st2 @ [EarlyStop e]\<rparr>))
                    | Inr False \<Rightarrow> Inr (Continue (scheduler_step p e st2)))
              else Inr (Continue (scheduler_step p e st1))))"

text \<open>
  \<open>for e in range(1, epochs + 1)\<close>: \<open>n\<close> epochs remain and \<open>e\<close> is the next one.
  \<open>break\<close> leaves the loop with the state as it is; an exception leaves the function.
\<close>

fun epoch_loop :: "params \<Rightarrow> nat \<Rightarrow> nat \<Rightarrow> loop_state \<Rightarrow> (error \<times> event list) + loop_state" where
  "epoch_loop p 0 e st = Inr st"
| "epoch_loop p (Suc n) e st =
     (case epoch_body p e st of
        Inl x \<Rightarrow> Inl x
      | Inr (Break st') \<Rightarrow> Inr st'
      | Inr (Continue st') \<Rightarrow> epoch_loop p n (Suc e) st')"

definition training_loop_gcn :: "params \<Rightarrow> (error \<times> event list) + loop_state" where
  "training_loop_gcn p = epoch_loop p (nat (epochs p)) 1 init_state"

text \<open>
  The tuple of line 150: \<open>train_acc\<close>, \<open>train_loss\<close>, the five training-benchmark
  lists (all empty), then \<open>valid_acc\<close>, \<open>valid_mrr\<close> and the three hits lists.
\<close>

type_synonym histories =
  "real list \<times> fval list \<times> real list \<times> real list \<times> real list \<times> real list \<times> real list
     \<times> real list \<times> real list \<times> real list \<times> real list \<times> real list"

definition returned :: "loop_state \<Rightarrow> histories" where
  "returned st = ([], train_loss st, [], [], [], [], [],
     valid_acc st, valid_mrr st, valid_hits_3 st, valid_hits_5 st, valid_hits_10 st)"

text \<open>
  The value of a call: the exception that ends it, or the tuple that the return statement
  builds from the lists as the loop left them.
\<close>

definition training_loop_gcn_value :: "params \<Rightarrow> (error \<times> event list) + histories" where
  "training_loop_gcn_value p =
     (case training_loop_gcn p of Inl x \<Rightarrow> Inl x | Inr st \<Rightarrow> Inr (returned st))"

subsection \<open>Auxiliary notions for the proofs about the loop\<close>

text \<open>The events of the batch loop, as opposed to those of the epoch level.\<close>

fun is_batch_event :: "event \<Rightarrow> bool" where
  "is_batch_event (ZeroGrad e i) = True"
| "is_batch_event (ModelCall e i) = True"
| "is_batch_event (LossBackward e i) = True"
| "is_batch_event (ClipGradNorm e i) = True"
| "is_batch_event (OptStep e i) = True"
| "is_batch_event x = False"

text \<open>The epochs among 1 to \<open>m\<close> whose number the evaluation interval divides.\<close>

definition evals :: "params \<Rightarrow> nat \<Rightarrow> nat list" where
  "evals p m = filter (\<lambda>e. int e mod eval_every p = 0) [1..<Suc m]"

text \<open>
  What one pass through the loop body appends to the trace, given the events \<open>bev\<close>
  of its batch loop and whether the pass ends in \<open>break\<close>.
\<close>

definition epoch_events :: "params \<Rightarrow> nat \<Rightarrow> bool \<Rightarrow> event list \<Rightarrow> event list" where
  "epoch_events p e brk bev =
     [DataFn e, ModelTrain e] @ bev
       @ (if int e mod eval_every p = 0 then [NoGrad e, ValTestbench e] else [])
       @ (if brk then [EarlyStop e] else if scheduler p then [SchedulerStep e] else [])"

text \<open>
  The loop invariant: \<open>st\<close> is a state after the epochs 1 to \<open>m\<close> have run, the
  last of them left by \<open>break\<close> iff \<open>b\<close>.
\<close>

definition ran :: "params \<Rightarrow> nat \<Rightarrow> bool \<Rightarrow> loop_state \<Rightarrow> bool" where
  "ran p m b st \<longleftrightarrow>
     length (train_loss st) = m
   \<and> valid_acc st = map (\<lambda>e. hits_at_1 (val_testbench p e)) (evals p m)
   \<and> valid_mrr st = map (\<lambda>e. mrr (val_testbench p e)) (evals p m)
   \<and> valid_mr st = map (\<lambda>e. mr (val_testbench p e)) (evals p m)
   \<and> valid_hits_3 st = map (\<lambda>e. hits_at_3 (val_testbench p e)) (evals p m)
   \<and> valid_hits_5 st = map (\<lambda>e. hits_at_5 (val_testbench p e)) (evals p m)
   \<and> valid_hits_10 st = map (\<lambda>e. hits_at_10 (val_testbench p e)) (evals p m)
   \<and> (\<forall>e. DataFn e \<in> set (trace st) \<longleftrightarrow> 1 \<le> e \<and> e \<le> m)
   \<and> (\<forall>e. ValTestbench e \<in> set (trace st) \<longleftrightarrow> 1 \<le> e \<and> e \<le> m \<and> int e mod eval_every p = 0)
   \<and> (\<forall>e. NoGrad e \<in> set (trace st) \<longleftrightarrow> 1 \<le> e \<and> e \<le> m \<and> int e mod eval_every p = 0)
   \<and> (\<forall>e. EarlyStop e \<in> set (trace st) \<longleftrightarrow> b \<and> e = m)
   \<and> (\<forall>e. count_list (trace st) (SchedulerStep e) =
          (if scheduler p \<and> 1 \<le> e \<and> e \<le> m \<and> \<not> (b \<and> e = m) then 1 else 0))
   \<and> (\<not> qualifier_aware p \<longrightarrow> (\<forall>e. 1 \<le> e \<and> e \<le> m \<longrightarrow> data_fn p e = []))
   \<and> (b \<longrightarrow> 1 \<le> m \<and> int m mod eval_every p = 0)"

subsection \<open>A concrete run\<close>

text \<open>
  The scenario of the specification: one batch per epoch, validation every epoch with the
  MRR sequence 0.5, 0.3, 0.2 (and 0.9 afterwards), an early-stopping window of 3, a
  scheduler, ten epochs requested.
\<close>

definition scenario_batch :: batch where
  "scenario_batch = \<lparr>b_sub = [0], b_rel = [0], b_quals = [[1, 2]], b_labels = [[0, 1, 0]]\<rparr>"

definition scenario_summary :: "nat \<Rightarrow> summary" where
  "scenario_summary e =
     \<lparr>hits_at_1 = 0, hits_at_3 = 0, hits_at_5 = 0, hits_at_10 = 0,
      mrr = (if e = 1 then 0.5 else if e = 2 then 0.3 else if e = 3 then 0.2 else 0.9),
      mr = 1\<rparr>"

definition scenario_params :: params where
  "scenario_params =
     \<lparr>epochs = 10, data_fn = (\<lambda>e. [scenario_batch]),
      model_loss = (\<lambda>e i s r q l. Inr 1),
      val_testbench = scenario_summary,
      eval_every = 1, qualifier_aware = True, grad_clipping = True,
      early_stopping = Some 3, scheduler = True\<rparr>"

definition epoch_trace :: "nat \<Rightarrow> event list" where
  "epoch_trace e = [DataFn e, ModelTrain e, ZeroGrad e 0, ModelCall e 0, LossBackward e 0,
     ClipGradNorm e 0, OptStep e 0]"

definition scenario_after2 :: loop_state where
  "scenario_after2 =
     \<lparr>train_loss = [Fin 1, Fin 1], valid_acc = [0, 0], valid_mrr = [0.5, 0.3],
      valid_mr = [1, 1], valid_hits_3 = [0, 0], valid_hits_5 = [0, 0], valid_hits_10 = [0, 0],
      trace = epoch_trace 1 @ [NoGrad 1, ValTestbench 1, SchedulerStep 1]
            @ epoch_trace 2 @ [NoGrad 2, ValTestbench 2, SchedulerStep 2]\<rparr>"

definition scenario_final :: loop_state where
  "scenario_final =
     \<lparr>train_loss = [Fin 1, Fin 1, Fin 1], valid_acc = [0, 0, 0], valid_mrr = [0.5, 0.3, 0.2],
      valid_mr = [1, 1, 1], valid_hits_3 = [0, 0, 0], valid_hits_5 = [0, 0, 0],
      valid_hits_10 = [0, 0, 0],
      trace = epoch_trace 1 @ [NoGrad 1, ValTestbench 1, SchedulerStep 1]
            @ epoch_trace 2 @ [NoGrad 2, ValTestbench 2, SchedulerStep 2]
            @ epoch_trace 3 @ [NoGrad 3, ValTestbench 3, EarlyStop 3]\<rparr>"

text \<open>The same collaborators, one epoch, validation every second epoch.\<close>

definition sparse_eval_params :: params where
  "sparse_eval_params = scenario_params\<lparr>epochs := 1, eval_every := 2\<rparr>"

text \<open>The same collaborators, one epoch, an early-stopping window of one.\<close>

definition stop_at_once_params :: params where
  "stop_at_once_params = scenario_params\<lparr>epochs := 1, early_stopping := Some 1\<rparr>"

text \<open>The scenario called without \<open>qualifier_aware\<close>.\<close>

definition unaware_params :: params where
  "unaware_params = scenario_params\<lparr>qualifier_aware := False\<rparr>"

section \<open>The convolution layer (models/old_gnn_layer.py)\<close>

subsection \<open>Tensors and the numerical engine\<close>

text \<open>
  A one-dimensional integer tensor is a list of naturals (entity ids, relation ids and
  positions are not negative); an index tensor of shape 2 x E is the pair of its rows; the
  qualifier tensor of shape 3 x 2Q is the record of its rows. A two-dimensional float
  tensor is the list of its rows. A row is an element of a type with the elementwise
  operations of rows of one width: \<open>+\<close>, \<open>-\<close>, \<open>*\<close>, the zero row and the
  multiplication \<open>*\<^sub>R\<close> by a scalar, all exact. The product with a weight matrix
  is the map it induces on rows.
\<close>

type_synonym index2 = "nat list \<times> nat list"

record qual_table =
  q_rel :: "nat list"
  q_ent :: "nat list"
  q_trip :: "nat list"

text \<open>\<open>t[idx]\<close> for an index tensor \<open>idx\<close>: the rows at those positions.\<close>

definition index_rows :: "'a list \<Rightarrow> nat list \<Rightarrow> error + 'a list" where
  "index_rows t idx =
     (if list_all (\<lambda>i. i < length t) idx then Inr (map (\<lambda>i. t ! i) idx) else Inl IndexError)"

text \<open>
  An operation applied row by row to two tensors, with the engine's broadcasting along the
  first axis: the lengths agree, or one of them is 1.
\<close>

definition elementwise :: "('a \<Rightarrow> 'b \<Rightarrow> 'c) \<Rightarrow> 'a list \<Rightarrow> 'b list \<Rightarrow> error + 'c list" where
  "elementwise f a b =
     (if length a = length b then Inr (map2 f a b)
      else if length a = 1 then Inr (map (f (hd a)) b)
      else if length b = 1 then Inr (map (\<lambda>x. f x (hd b)) a)
      else Inl RuntimeError)"

text \<open>
  \<open>scatter_add(src, index, dim=0, dim_size=n)\<close> of torch_scatter: starting from \<open>n\<close>
  zero rows, row \<open>src[i]\<close> is added to the row at \<open>index[i]\<close>. An index outside the
  output, or an index tensor that does not fit \<open>src\<close>, is an engine failure.
\<close>

fun scatter_loop :: "'a::comm_monoid_add list \<Rightarrow> nat list \<Rightarrow> 'a list \<Rightarrow> error + 'a list" where
  "scatter_loop [] [] out = Inr out"
| "scatter_loop (s # src) (i # index) out =
     (if i < length out then scatter_loop src index (out[i := out ! i + s])
      else Inl RuntimeError)"
| "scatter_loop [] (i # index) out = Inl RuntimeError"
| "scatter_loop (s # src) [] out = Inl RuntimeError"

definition scatter_add :: "'a::comm_monoid_add list \<Rightarrow> nat list \<Rightarrow> nat \<Rightarrow> error + 'a list" where
  "scatter_add src index dim_size = scatter_loop src index (replicate dim_size 0)"

text \<open>The product of two floats, and \<open>x.pow(-0.5)\<close>.\<close>

fun fmul :: "fval \<Rightarrow> fval \<Rightarrow> fval" where
  "fmul (Fin a) (Fin b) = Fin (a * b)"
| "fmul NaN y = NaN"
| "fmul x NaN = NaN"
| "fmul (Fin a) PInf = (if a = 0 then NaN else if 0 < a then PInf else NInf)"
| "fmul (Fin a) NInf = (if a = 0 then NaN else if 0 < a then NInf else PInf)"
| "fmul PInf (Fin b) = (if b = 0 then NaN else if 0 < b then PInf else NInf)"
| "fmul NInf (Fin b) = (if b = 0 then NaN else if 0 < b then NInf else PInf)"
| "fmul PInf PInf = PInf"
| "fmul PInf NInf = NInf"
| "fmul NInf PInf = NInf"
| "fmul NInf NInf = PInf"

definition pow_neg_half :: "real \<Rightarrow> fval" where
  "pow_neg_half d = (if d = 0 then PInf else if d < 0 then NaN else Fin (1 / sqrt d))"

text \<open>
  A row scaled by a float. Rows hold finite values only, so a non-finite factor leaves the
  model; the weights that \<open>compute_norm\<close> returns are finite, as is proved below.
\<close>

fun nscale :: "fval \<Rightarrow> 'w::real_vector \<Rightarrow> error + 'w" where
  "nscale (Fin a) v = Inr (a *\<^sub>R v)"
| "nscale x v = Inl RuntimeError"

text \<open>The value of an optional argument that the callee uses as a tensor.\<close>

definition need :: "'a option \<Rightarrow> error + 'a" where
  "need x = (case x of None \<Rightarrow> Inl TypeError | Some v \<Rightarrow> Inr v)"

text \<open>
  What the layer takes from outside this file. \<open>ccorr\<close> and \<open>rotate\<close> are the helpers
  of \<open>utils.utils_gcn\<close>, which combine an entity row and a relation row; the three
  \<open>bn\<close> functions are torch's \<open>BatchNorm1d\<close> on its state \<open>'s\<close> (affine parameters
  and running statistics): the output in training mode (which fails on a batch it cannot
  normalise), the output in evaluation mode, and the state after a call in training mode.
\<close>

record ('v, 'w, 's) engine =
  ccorr :: "'v \<Rightarrow> 'v \<Rightarrow> 'v"
  rotate_op :: "'v \<Rightarrow> 'v \<Rightarrow> 'v"
  bn_train :: "'s \<Rightarrow> 'w list \<Rightarrow> error + 'w list"
  bn_eval :: "'s \<Rightarrow> 'w list \<Rightarrow> 'w list"
  bn_update :: "'s \<Rightarrow> 'w list \<Rightarrow> 's"

text \<open>
  \<open>BatchNorm1d\<close> as a module: in evaluation mode it normalises with the running
  statistics and leaves its state as it is.
\<close>

definition batch_norm ::
  "('v, 'w, 's) engine \<Rightarrow> bool \<Rightarrow> 's \<Rightarrow> 'w list \<Rightarrow> error + ('w list \<times> 's)" where
  "batch_norm eng train s t =
     (if train then ebind (bn_train eng s t) (\<lambda>r. Inr (r, bn_update eng s t))
      else Inr (bn_eval eng s t, s))"

subsection \<open>The layer object\<close>

text \<open>
  The attributes that \<open>__init__\<close> sets and \<open>forward\<close> reads: the weight matrices as
  maps on rows, the self-loop relation row, the state of the normalisation module, the
  lazily set device, and the mode of the module (\<open>training\<close>).
\<close>

record ('v, 'w, 's) conv =
  num_rels :: nat
  act :: "'w list \<Rightarrow> 'w list"
  opn :: string
  device :: "string option"
  alpha :: real
  w_loop :: "'v \<Rightarrow> 'w"
  w_in :: "'v \<Rightarrow> 'w"
  w_out :: "'v \<Rightarrow> 'w"
  w_rel :: "'v \<Rightarrow> 'w"
  loop_rel :: 'v
  bn_state :: 's
  training :: bool

datatype mode = MIn | MOut | MLoop

text \<open>\<open>getattr(self, 'w_{}'.format(mode))\<close>.\<close>

fun weight_of :: "('v, 'w, 's) conv \<Rightarrow> mode \<Rightarrow> ('v \<Rightarrow> 'w)" where
  "weight_of c MIn = w_in c"
| "weight_of c MOut = w_out c"
| "weight_of c MLoop = w_loop c"

text \<open>
  \<open>nn.Dropout\<close>: the identity unless the module is in training mode, where it is the
  random masking and rescaling \<open>rnd\<close> drawn for the call.
\<close>

definition dropout :: "('v, 'w, 's) conv \<Rightarrow> ('w list \<Rightarrow> 'w list) \<Rightarrow> 'w list \<Rightarrow> 'w list" where
  "dropout c rnd t = (if training c then rnd t else t)"

subsection \<open>Composition and normalisation\<close>

definition comp_func ::
  "('v::real_algebra, 'w, 's) engine \<Rightarrow> ('v, 'w, 's) conv \<Rightarrow> 'v list \<Rightarrow> 'v list \<Rightarrow> error + 'v list" where
  "comp_func eng c ent_embed rel_embed =
     (if opn c = ''corr'' then elementwise (ccorr eng) ent_embed rel_embed
      else if opn c = ''sub'' then elementwise (\<lambda>a b. a - b) ent_embed rel_embed
      else if opn c = ''mult'' then elementwise (\<lambda>a b. a * b) ent_embed rel_embed
      else if opn c = ''rotate'' then elementwise (rotate_op eng) ent_embed rel_embed
      else Inl NotImplementedError)"

definition compute_norm :: "index2 \<Rightarrow> nat \<Rightarrow> error + fval list" where
  "compute_norm edge_index num_ent =
     (let row = fst edge_index;
          col = snd edge_index;
          edge_weight = map (\<lambda>r. 1 :: real) row
      in ebind (scatter_add edge_weight row num_ent) (\<lambda>deg.
           let deg_inv0 = map pow_neg_half deg;
               deg_inv = map (\<lambda>d. if d = PInf then Fin 0 else d) deg_inv0
           in ebind (index_rows deg_inv row) (\<lambda>dr.
              ebind (elementwise fmul dr (map Fin edge_weight)) (\<lambda>dw.
              ebind (index_rows deg_inv col) (\<lambda>dc.
              elementwise fmul dw dc)))))"

definition combine_trips ::
  "('v::real_algebra, 'w, 's) engine \<Rightarrow> ('v, 'w, 's) conv \<Rightarrow> 'v list \<Rightarrow> 'v list \<Rightarrow> 'v list option
     \<Rightarrow> error + 'v list" where
  "combine_trips eng c x_j rel_sub_embs ent_embed = comp_func eng c x_j rel_sub_embs"

definition combine_quals ::
  "('v::real_algebra, 'w, 's) engine \<Rightarrow> ('v, 'w, 's) conv \<Rightarrow> mode \<Rightarrow> 'v list \<Rightarrow> 'v list \<Rightarrow> 'v list
     \<Rightarrow> nat list \<Rightarrow> nat list \<Rightarrow> nat list \<Rightarrow> error + 'v list" where
  "combine_quals eng c mode x_j ent_embed rel_embed ent_index rel_index quals_index =
     ebind (index_rows rel_embed rel_index) (\<lambda>qualifier_emb_rel.
       if mode = MOut then comp_func eng c x_j qualifier_emb_rel
       else ebind (index_rows ent_embed ent_index) (\<lambda>qualifier_emb_ent.
            ebind (comp_func eng c qualifier_emb_ent qualifier_emb_rel) (\<lambda>qual_embeddings.
            scatter_add qual_embeddings quals_index (length rel_embed))))"

definition combine_quals_trips ::
  "('v::real_algebra, 'w, 's) engine \<Rightarrow> ('v, 'w, 's) conv \<Rightarrow> 'v list \<Rightarrow> 'v list \<Rightarrow> 'v list \<Rightarrow> 'v list
     \<Rightarrow> error + 'v list" where
  "combine_quals_trips eng c x_j rel_embed trip_obj_embed trip_rel_embed =
     ebind (comp_func eng c x_j trip_rel_embed) (\<lambda>comp_trip_agg.
     ebind (comp_func eng c x_j rel_embed) (\<lambda>qual_embeddings.
     elementwise (\<lambda>a b. a + b)
       (map (\<lambda>r. alpha c *\<^sub>R r) comp_trip_agg)
       (map (\<lambda>r. (1 - alpha c) *\<^sub>R r) qual_embeddings)))"

text \<open>
  Where a tensor lives. The arguments of \<open>forward\<close> live on one device, the device of
  \<open>edge_index\<close>; a tensor that the layer creates with \<open>.to(self.device)\<close> lives on
  the device that the layer has stored. Slices, index selections and sums of tensors live
  where their operands live, and assigning into a row of a tensor copies the value to the
  device of that tensor.
\<close>

datatype placement = OnInputs | OnLayer

fun device_of :: "('v, 'w, 's) conv \<Rightarrow> string \<Rightarrow> placement \<Rightarrow> string option" where
  "device_of c dev OnInputs = Some dev"
| "device_of c dev OnLayer = device c"

text \<open>
  \<open>qual_inverse_edges\<close>: the inverse edges of the \<open>qual\<close> propagation. The new edge
  index is created on the layer's device (line 337); the relation ids are computed from
  the qualifier tensor and live with it.
\<close>

definition qual_inverse_edges ::
  "('v, 'w, 's) conv \<Rightarrow> index2 \<Rightarrow> qual_table \<Rightarrow> error + ((index2 \<times> placement) \<times> nat list)" where
  "qual_inverse_edges c inv_edge_index quals =
     (let num_quals = length (q_rel quals) div 2;
          quals_ent_out_index = drop num_quals (q_ent quals);
          quals_rel_out_index = map (\<lambda>r. r + num_rels c) (drop num_quals (q_rel quals));
          quals_parent_out_index = drop num_quals (q_trip quals)
      in ebind (index_rows (snd inv_edge_index) quals_parent_out_index) (\<lambda>inv_tails.
         if length quals_ent_out_index = num_quals \<and> length inv_tails = num_quals
         then Inr (((quals_ent_out_index, inv_tails), OnLayer), quals_rel_out_index)
         else Inl RuntimeError))"

subsection \<open>Messages\<close>

text \<open>The keyword arguments that \<open>propagate\<close> hands to \<open>message\<close>.\<close>

record 'v msg_args =
  m_edge_type :: "nat list"
  m_rel_embed :: "'v list"
  m_edge_norm :: "fval list option"
  m_mode :: mode
  m_ent_embed :: "'v list option"
  m_qualifier_ent :: "nat list option"
  m_qualifier_rel :: "nat list option"
  m_qual_index :: "nat list option"
  m_prop_type :: "string option"
  m_both_obj_index :: "nat list option"
  m_trip_rel :: "nat list option"
  m_aux_ent_embs :: "'v list option"
  m_aux_rel_embs :: "'v list option"
  m_entity_index :: "index2 option"

text \<open>
  The composition that \<open>message\<close> selects by mode and propagation type (lines 203 to
  228). When no branch applies, \<open>comp_agg\<close> is read unassigned.
\<close>

definition message_comp ::
  "('v::real_algebra, 'w, 's) engine \<Rightarrow> ('v, 'w, 's) conv \<Rightarrow> 'v list \<Rightarrow> 'v list \<Rightarrow> 'v msg_args
     \<Rightarrow> error + 'v list" where
  "message_comp eng c x_j rel_sub_embs m =
     (if m_mode m = MLoop then comp_func eng c x_j rel_sub_embs
      else if m_prop_type m = Some ''trip'' then
        combine_trips eng c x_j rel_sub_embs (m_ent_embed m)
      else if m_prop_type m = Some ''qual'' then
        ebind (need (m_ent_embed m)) (\<lambda>ent_embed.
        ebind (need (m_qualifier_ent m)) (\<lambda>qualifier_ent.
        ebind (need (m_qualifier_rel m)) (\<lambda>qualifier_rel.
        ebind (need (m_qual_index m)) (\<lambda>qual_index.
        combine_quals eng c (m_mode m) x_j ent_embed rel_sub_embs
          qualifier_ent qualifier_rel qual_index))))
      else if m_prop_type m = Some ''both'' then
        ebind (need (m_trip_rel m)) (\<lambda>trip_rel.
        ebind (need (m_both_obj_index m)) (\<lambda>both_obj_index.
        (case m_aux_ent_embs m of
           Some aux_ent_embs \<Rightarrow>
             ebind (need (m_aux_rel_embs m)) (\<lambda>aux_rel_embs.
             ebind (index_rows aux_rel_embs trip_rel) (\<lambda>trip_rel_embed.
             ebind (index_rows aux_ent_embs both_obj_index) (\<lambda>trip_obj_embed.
             ebind (if m_mode m = MIn
                    then ebind (need (m_entity_index m)) (\<lambda>entity_index.
                           index_rows aux_ent_embs (snd entity_index))
                    else Inr x_j) (\<lambda>x_j'.
             combine_quals_trips eng c x_j' rel_sub_embs trip_obj_embed trip_rel_embed))))
         | None \<Rightarrow>
             ebind (index_rows (m_rel_embed m) trip_rel) (\<lambda>trip_rel_embed.
             ebind (need (m_ent_embed m)) (\<lambda>ent_embed.
             ebind (index_rows ent_embed both_obj_index) (\<lambda>trip_obj_embed.
             combine_quals_trips eng c x_j rel_sub_embs trip_obj_embed trip_rel_embed))))))
      else Inl UnboundLocalError)"

definition message ::
  "('v::real_algebra, 'w::real_vector, 's) engine \<Rightarrow> ('v, 'w, 's) conv \<Rightarrow> 'v list \<Rightarrow> 'v list
     \<Rightarrow> 'v msg_args \<Rightarrow> error + 'w list" where
  "message eng c x_i x_j m =
     (let comp_weight_matrix = weight_of c (m_mode m)
      in ebind (index_rows (m_rel_embed m) (m_edge_type m)) (\<lambda>rel_sub_embs.
         ebind (message_comp eng c x_j rel_sub_embs m) (\<lambda>comp_agg.
         let out = map comp_weight_matrix comp_agg
         in case m_edge_norm m of
              None \<Rightarrow> Inr out
            | Some edge_norm \<Rightarrow> ebind (elementwise nscale edge_norm out) collect)))"

text \<open>
  \<open>propagate\<close> of the message-passing base class, built with
  \<open>flow='target_to_source'\<close> and \<open>aggr='add'\<close>: \<open>x_i\<close> are the rows of \<open>x\<close> at
  the first row of the edge index and \<open>x_j\<close> those at the second; the messages are
  summed at the first row's entity, over as many output rows as \<open>x\<close> has; \<open>update\<close>
  returns its argument. \<open>x\<close> lives on the device \<open>dev\<close> of the inputs and the edge
  index at \<open>place\<close>: selecting rows of \<open>x\<close> with an index on another device is an
  engine failure.
\<close>

definition propagate ::
  "('v::real_algebra, 'w::real_vector, 's) engine \<Rightarrow> ('v, 'w, 's) conv \<Rightarrow> string \<Rightarrow> placement
     \<Rightarrow> index2 \<Rightarrow> 'v list \<Rightarrow> 'v msg_args \<Rightarrow> error + 'w list" where
  "propagate eng c dev place edge_index x m =
     (if device_of c dev place \<noteq> Some dev then Inl RuntimeError
      else ebind (index_rows x (fst edge_index)) (\<lambda>x_i.
           ebind (index_rows x (snd edge_index)) (\<lambda>x_j.
           ebind (message eng c x_i x_j m) (\<lambda>msgs.
           scatter_add msgs (fst edge_index) (length x)))))"

subsection \<open>The forward pass\<close>

text \<open>
  The index tensors that \<open>forward\<close> builds before it propagates (lines 58 to 114): the
  relation table with the self-loop row appended, the two halves of the edges and of the
  qualifiers, the self-loop edges, and under \<open>both\<close> the carried object and relation
  ids (\<open>None\<close> otherwise); and where the three edge indices live. The halves of
  \<open>edge_index\<close> live with the inputs; the self-loop index (line 79), the edge indices
  of \<open>both\<close> (lines 92 and 97) and the inverse edge index of \<open>qual\<close> (line 337)
  are created on the layer's device.
\<close>

record 'v prepared =
  a_rel_emb_all :: "'v list"
  a_in_index :: index2
  a_out_index :: index2
  a_in_type :: "nat list"
  a_out_type :: "nat list"
  a_in_index_qual_ent :: "nat list"
  a_out_index_qual_ent :: "nat list"
  a_in_index_qual_rel :: "nat list"
  a_out_index_qual_rel :: "nat list"
  a_quals_index_in :: "nat list"
  a_quals_index_out :: "nat list"
  a_loop_index :: index2
  a_loop_type :: "nat list"
  a_both_obj_in :: "nat list option"
  a_both_obj_out :: "nat list option"
  a_trip_rel_in :: "nat list option"
  a_trip_rel_out :: "nat list option"
  a_in_place :: placement
  a_out_place :: placement
  a_loop_place :: placement

text \<open>
  A row of a fresh \<open>zeros(2, num_quals)\<close> tensor is assigned: the value must have
  \<open>num_quals\<close> entries.
\<close>

definition assign_row :: "nat \<Rightarrow> nat list \<Rightarrow> error + nat list" where
  "assign_row n v = (if length v = n then Inr v else Inl RuntimeError)"

definition prepare ::
  "('v, 'w, 's) conv \<Rightarrow> string \<Rightarrow> 'v list \<Rightarrow> index2 \<Rightarrow> nat list \<Rightarrow> 'v list \<Rightarrow> qual_table
     \<Rightarrow> error + 'v prepared" where
  "prepare c prop_type x edge_index edge_type rel_embed quals =
     (let num_ent = length x;
          num_quals = length (q_rel quals) div 2;
          num_edges = length (fst edge_index) div 2;
          rel_emb_all = rel_embed @ [loop_rel c];
          in_index = (take num_edges (fst edge_index), take num_edges (snd edge_index));
          out_index = (drop num_edges (fst edge_index), drop num_edges (snd edge_index));
          in_type = take num_edges edge_type;
          out_type = drop num_edges edge_type;
          in_index_qual_ent = take num_quals (q_ent quals);
          out_index_qual_ent = drop num_quals (q_ent quals);
          in_index_qual_rel = take num_quals (q_rel quals);
          out_index_qual_rel = drop num_quals (q_rel quals);
          quals_index_in = take num_quals (q_trip quals);
          quals_index_out = drop num_quals (q_trip quals);
          loop_index = ([0..<num_ent], [0..<num_ent]);
          loop_type = replicate num_ent (length rel_emb_all - 1);
          base = \<lparr>a_rel_emb_all = rel_emb_all, a_in_index = in_index, a_out_index = out_index,
                  a_in_type = in_type, a_out_type = out_type,
                  a_in_index_qual_ent = in_index_qual_ent,
                  a_out_index_qual_ent = out_index_qual_ent,
                  a_in_index_qual_rel = in_index_qual_rel,
                  a_out_index_qual_rel = out_index_qual_rel,
                  a_quals_index_in = quals_index_in, a_quals_index_out = quals_index_out,
                  a_loop_index = loop_index, a_loop_type = loop_type,
                  a_both_obj_in = None, a_both_obj_out = None,
                  a_trip_rel_in = None, a_trip_rel_out = None,
                  a_in_place = OnInputs, a_out_place = OnInputs, a_loop_place = OnLayer\<rparr>
      in ebind (if prop_type = ''qual''
                then ebind (qual_inverse_edges c out_index quals) (\<lambda>((oi, pl), ot).
                       Inr (base\<lparr>a_out_index := oi, a_out_type := ot, a_out_place := pl\<rparr>))
                else Inr base) (\<lambda>a.
         if prop_type = ''both'' then
           ebind (assign_row num_quals in_index_qual_ent) (\<lambda>in0.
           ebind (index_rows (fst edge_index) quals_index_in) (\<lambda>subj.
           ebind (assign_row num_quals subj) (\<lambda>in1.
           ebind (index_rows (fst edge_index) quals_index_in) (\<lambda>subj'.
           ebind (assign_row num_quals subj') (\<lambda>out0.
           ebind (assign_row num_quals in_index_qual_ent) (\<lambda>out1.
           let in_type' = in_index_qual_rel;
               out_type' = map (\<lambda>r. r + num_rels c) out_index_qual_rel
           in ebind (index_rows (snd edge_index) quals_index_in) (\<lambda>both_obj_in.
              ebind (index_rows (snd edge_index) quals_index_out) (\<lambda>both_obj_out.
              let trip_rel_in = in_type';
                  trip_rel_out = in_type'
              in Inr (a\<lparr>a_in_index := (in0, in1), a_out_index := (out0, out1),
                        a_in_type := in_type', a_out_type := out_type',
                        a_both_obj_in := Some both_obj_in,
                        a_both_obj_out := Some both_obj_out,
                        a_trip_rel_in := Some trip_rel_in,
                        a_trip_rel_out := Some trip_rel_out,
                        a_in_place := OnLayer, a_out_place := OnLayer\<rparr>)))))))))
         else Inr a))"

text \<open>
  Lines 117 to 167: the two normalisations and the three propagations, over the forward
  edges, the inverse edges and the self-loops. \<open>dev\<close> is the device of the inputs.
\<close>

definition aggregates ::
  "('v::real_algebra, 'w::real_vector, 's) engine \<Rightarrow> ('v, 'w, 's) conv \<Rightarrow> string \<Rightarrow> string
     \<Rightarrow> 'v list \<Rightarrow> 'v prepared \<Rightarrow> 'v list option \<Rightarrow> 'v list option
     \<Rightarrow> error + ('w list \<times> 'w list \<times> 'w list)" where
  "aggregates eng c dev prop_type x a aux_ents aux_rels =
     (let num_ent = length x
      in ebind (compute_norm (a_in_index a) num_ent) (\<lambda>in_norm.
         ebind (compute_norm (a_out_index a) num_ent) (\<lambda>out_norm.
         ebind (propagate eng c dev (a_in_place a) (a_in_index a) x
                  \<lparr>m_edge_type = a_in_type a, m_rel_embed = a_rel_emb_all a,
                   m_edge_norm = Some in_norm, m_mode = MIn, m_ent_embed = Some x,
                   m_qualifier_ent = Some (a_in_index_qual_ent a),
                   m_qualifier_rel = Some (a_in_index_qual_rel a),
                   m_qual_index = Some (a_quals_index_in a),
                   m_prop_type = Some prop_type,
                   m_both_obj_index = a_both_obj_in a, m_trip_rel = a_trip_rel_in a,
                   m_aux_ent_embs = aux_ents, m_aux_rel_embs = aux_rels,
                   m_entity_index = Some (a_in_index a)\<rparr>) (\<lambda>in_res.
         ebind (propagate eng c dev (a_out_place a) (a_out_index a) x
                  \<lparr>m_edge_type = a_out_type a, m_rel_embed = a_rel_emb_all a,
                   m_edge_norm = Some out_norm, m_mode = MOut, m_ent_embed = Some x,
                   m_qualifier_ent = Some (a_out_index_qual_ent a),
                   m_qualifier_rel = Some (a_out_index_qual_rel a),
                   m_qual_index = Some (a_quals_index_out a),
                   m_prop_type = Some prop_type,
                   m_both_obj_index = a_both_obj_out a, m_trip_rel = a_trip_rel_out a,
                   m_aux_ent_embs = aux_ents, m_aux_rel_embs = aux_rels,
                   m_entity_index = Some (a_out_index a)\<rparr>) (\<lambda>out_res.
         ebind (propagate eng c dev (a_loop_place a) (a_loop_index a) x
                  \<lparr>m_edge_type = a_loop_type a, m_rel_embed = a_rel_emb_all a,
                   m_edge_norm = None, m_mode = MLoop, m_ent_embed = None,
                   m_qualifier_ent = None, m_qualifier_rel = None, m_qual_index = None,
                   m_prop_type = Some prop_type,
                   m_both_obj_index = None, m_trip_rel = None,
                   m_aux_ent_embs = None, m_aux_rel_embs = None,
                   m_entity_index = None\<rparr>) (\<lambda>loop_res.
         Inr (in_res, out_res, loop_res)))))))"

text \<open>
  \<open>forward\<close>. \<open>dev\<close> is the device of \<open>edge_index\<close> and of the other
  inputs, which the first call stores; \<open>rnd_in\<close> and \<open>rnd_out\<close> are the random
  maskings that the two dropout calls draw. The result is the pair that the source returns
  and the layer object as the call
  leaves it.
\<close>

definition forward ::
  "('v::real_algebra, 'w::real_vector, 's) engine \<Rightarrow> ('v, 'w, 's) conv \<Rightarrow> string
     \<Rightarrow> ('w list \<Rightarrow> 'w list) \<Rightarrow> ('w list \<Rightarrow> 'w list)
     \<Rightarrow> string \<Rightarrow> 'v list \<Rightarrow> index2 \<Rightarrow> nat list \<Rightarrow> 'v list \<Rightarrow> qual_table
     \<Rightarrow> 'v list option \<Rightarrow> 'v list option
     \<Rightarrow> error + ('w list \<times> 'w list \<times> ('v, 'w, 's) conv)" where
  "forward eng c dev rnd_in rnd_out prop_type x edge_index edge_type rel_embed quals
       aux_ents aux_rels =
     (let c1 = (if device c = None then c\<lparr>device := Some dev\<rparr> else c)
      in ebind (prepare c1 prop_type x edge_index edge_type rel_embed quals) (\<lambda>a.
         ebind (aggregates eng c1 dev prop_type x a aux_ents aux_rels)
           (\<lambda>(in_res, out_res, loop_res).
         ebind (elementwise (\<lambda>u v. u + v)
                  (map (\<lambda>r. (1 / 3) *\<^sub>R r) (dropout c1 rnd_in in_res))
                  (map (\<lambda>r. (1 / 3) *\<^sub>R r) (dropout c1 rnd_out out_res))) (\<lambda>s2.
         ebind (elementwise (\<lambda>u v. u + v) s2 (map (\<lambda>r. (1 / 3) *\<^sub>R r) loop_res)) (\<lambda>out.
         ebind (batch_norm eng (training c1) (bn_state c1) out) (\<lambda>(out', s').
         Inr (act c1 out', butlast (map (w_rel c1) (a_rel_emb_all a)),
              c1\<lparr>bn_state := s'\<rparr>)))))))"

subsection \<open>Auxiliary notions for the proofs about the layer\<close>

text \<open>
  The degree that \<open>compute_norm\<close> counts for an entity (``Num edges for each head
  entity''): the number of edges of the list that have the entity in their first row, the
  head or source of the edge. \<open>deg_inv_of\<close> is its power \<open>-0.5\<close>, with zero for an
  entity of degree zero.
\<close>

definition head_degree :: "nat list \<Rightarrow> nat \<Rightarrow> nat" where
  "head_degree row v = count_list row v"

definition deg_inv_of :: "nat list \<Rightarrow> nat \<Rightarrow> real" where
  "deg_inv_of row v = (if head_degree row v = 0 then 0 else 1 / sqrt (real (head_degree row v)))"

text \<open>
  The in-degree of an entity in a directed edge list, in the words of the specification:
  the number of edges that have the entity as their target, the second row.
\<close>

definition in_degree :: "index2 \<Rightarrow> nat \<Rightarrow> nat" where
  "in_degree edge_index v = count_list (snd edge_index) v"

text \<open>
  A small layer over rows of width one: subtraction as the composition, weights that
  scale by 1, 2 and 3, a normalisation and a nonlinearity that are the identity.
\<close>

definition toy_engine :: "(real, real, unit) engine" where
  "toy_engine = \<lparr>ccorr = (\<lambda>a b. a * b), rotate_op = (\<lambda>a b. a * b),
     bn_train = (\<lambda>s t. Inr t), bn_eval = (\<lambda>s t. t), bn_update = (\<lambda>s t. s)\<rparr>"

definition toy_conv :: "(real, real, unit) conv" where
  "toy_conv = \<lparr>num_rels = 2, act = (\<lambda>t. t), opn = ''sub'', device = None, alpha = 1 / 2,
     w_loop = (\<lambda>v. v), w_in = (\<lambda>v. 2 * v), w_out = (\<lambda>v. 3 * v), w_rel = (\<lambda>v. v),
     loop_rel = 0, bn_state = (), training = False\<rparr>"

text \<open>
  A graph with three entities, two relations and one triple (0, relation 0, 1) that has
  one qualifier (relation 1, entity 2): the triple and its inverse, the qualifier and its
  copy for the inverse half.
\<close>

definition toy_x :: "real list" where
  "toy_x = [10, 20, 30]"

definition toy_edge_index :: index2 where
  "toy_edge_index = ([0, 1], [1, 0])"

definition toy_edge_type :: "nat list" where
  "toy_edge_type = [0, 2]"

definition toy_rel_embed :: "real list" where
  "toy_rel_embed = [1, 2, 3, 4]"

definition toy_quals :: qual_table where
  "toy_quals = \<lparr>q_rel = [1, 1], q_ent = [2, 2], q_trip = [0, 0]\<rparr>"

text \<open>What \<open>forward\<close> prepares for that graph under \<open>both\<close>.\<close>

definition toy_prepared_both :: "real prepared" where
  "toy_prepared_both =
     \<lparr>a_rel_emb_all = [1, 2, 3, 4, 0], a_in_index = ([2], [0]),
      a_out_index = ([0], [2]), a_in_type = [1], a_out_type = [3],
      a_in_index_qual_ent = [2], a_out_index_qual_ent = [2],
      a_in_index_qual_rel = [1], a_out_index_qual_rel = [1],
      a_quals_index_in = [0], a_quals_index_out = [0],
      a_loop_index = ([0, 1, 2], [0, 1, 2]), a_loop_type = [4, 4, 4],
      a_both_obj_in = Some [1], a_both_obj_out = Some [1],
      a_trip_rel_in = Some [1], a_trip_rel_out = Some [1],
      a_in_place = OnLayer, a_out_place = OnLayer, a_loop_place = OnLayer\<rparr>"

text \<open>
  A graph with two entities and the triples (0, relation 0, 1) and (1, relation 0, 0),
  the first with the qualifier (relation 1, entity 1), and what \<open>forward\<close> prepares
  for it under \<open>trip\<close>.
\<close>

definition ring_x :: "real list" where
  "ring_x = [10, 20]"

definition ring_edge_index :: index2 where
  "ring_edge_index = ([0, 1, 1, 0], [1, 0, 0, 1])"

definition ring_edge_type :: "nat list" where
  "ring_edge_type = [0, 0, 2, 2]"

definition ring_quals :: qual_table where
  "ring_quals = \<lparr>q_rel = [1, 1], q_ent = [1, 1], q_trip = [0, 0]\<rparr>"

definition ring_prepared :: "real prepared" where
  "ring_prepared =
     \<lparr>a_rel_emb_all = [1, 2, 3, 4, 0], a_in_index = ([0, 1], [1, 0]),
      a_out_index = ([1, 0], [0, 1]), a_in_type = [0, 0], a_out_type = [2, 2],
      a_in_index_qual_ent = [1], a_out_index_qual_ent = [1],
      a_in_index_qual_rel = [1], a_out_index_qual_rel = [1],
      a_quals_index_in = [0], a_quals_index_out = [0],
      a_loop_index = ([0, 1], [0, 1]), a_loop_type = [4, 4],
      a_both_obj_in = None, a_both_obj_out = None, a_trip_rel_in = None,
      a_trip_rel_out = None,
      a_in_place = OnInputs, a_out_place = OnInputs, a_loop_place = OnLayer\<rparr>"


section \<open>The top-level model (models/hyper_gcn.py)\<close>

subsection \<open>Matrices\<close>

text \<open>
  An embedding table is the list of its rows, each a list of exact reals. \<open>cat_dim1\<close> is
  \<open>torch.cat((a, b), dim=1)\<close>: the rows are joined, and the tables must have as many
  rows as each other. \<open>matmul\<close> is the product with a matrix given by its rows: every
  row of the left operand must be as long as the matrix has rows.
\<close>

type_synonym mat = "real list list"

definition cat_dim1 :: "mat \<Rightarrow> mat \<Rightarrow> error + mat" where
  "cat_dim1 a b = (if length a = length b then Inr (map2 (\<lambda>u v. u @ v) a b) else Inl RuntimeError)"

definition width :: "mat \<Rightarrow> nat" where
  "width w = (case w of [] \<Rightarrow> 0 | r # rs \<Rightarrow> length r)"

definition row_times :: "real list \<Rightarrow> mat \<Rightarrow> real list" where
  "row_times r w = map (\<lambda>j. sum_list (map2 (\<lambda>a wr. a * wr ! j) r w)) [0..<width w]"

definition matmul :: "mat \<Rightarrow> mat \<Rightarrow> error + mat" where
  "matmul a w =
     (if list_all (\<lambda>r. length r = length w) a then Inr (map (\<lambda>r. row_times r w) a)
      else Inl RuntimeError)"

subsection \<open>The model object\<close>

text \<open>The auxiliary batch of the qualifier-entity prediction.\<close>

record 'k aux_batch =
  base_sub_ix :: "nat list"
  base_rel_ix :: "nat list"
  base_obj_ix :: "nat list"
  aux_quals :: "nat list list"
  aux_mask :: 'k

text \<open>
  The attributes of \<open>HypRelModel\<close> that \<open>forward\<close> reads. The two encoders
  (\<open>HypRelEncoder\<close> of \<open>.encoders\<close>) and the decoder (of \<open>.transformers\<close>) are
  not in this file: an encoder maps a propagation tag, an entity table and a relation table
  to a pair of tables or fails; the decoder maps the indexed embeddings, the entity table,
  the shape of the subject index, the qualifier index and the optional tail embeddings and
  mask to its predictions. \<open>ent_parallel_lnorm\<close> is torch's \<open>LayerNorm\<close> with the
  parameters of the model. The three \<open>ent_parallel\<close> attributes exist when
  \<open>parallel\<close> is set.
\<close>

record ('k, 'p) hyp_rel_model =
  only_trips :: bool
  parallel :: bool
  ent_embs :: mat
  rel_embs :: mat
  trip_encoder :: "string \<Rightarrow> mat \<Rightarrow> mat \<Rightarrow> error + (mat \<times> mat)"
  qual_encoder :: "string \<Rightarrow> mat \<Rightarrow> mat \<Rightarrow> error + (mat \<times> mat)"
  decoder :: "mat \<Rightarrow> mat \<Rightarrow> mat list \<Rightarrow> mat list \<Rightarrow> mat \<Rightarrow> nat \<Rightarrow> nat list list
                \<Rightarrow> mat option \<Rightarrow> 'k option \<Rightarrow> error + 'p"
  ent_parallel_matrix :: mat
  ent_parallel_lnorm :: "mat \<Rightarrow> mat"
  model_training :: bool

text \<open>
  \<open>index_embs\<close>: the subject and relation rows of a batch, and the rows of its
  qualifier entities (the odd columns of \<open>quals_ix\<close>) and qualifier relations (the even
  columns), regrouped per sample by \<open>view\<close>, which fails when the rows cannot be split
  into as many groups as the batch has samples.
\<close>

fun evens :: "'a list \<Rightarrow> 'a list" where
  "evens [] = []"
| "evens [a] = [a]"
| "evens (a # b # rest) = a # evens rest"

fun odds :: "'a list \<Rightarrow> 'a list" where
  "odds [] = []"
| "odds [a] = []"
| "odds (a # b # rest) = b # odds rest"

fun chunks :: "nat \<Rightarrow> nat \<Rightarrow> 'a list \<Rightarrow> 'a list list" where
  "chunks 0 k xs = []"
| "chunks (Suc n) k xs = take k xs # chunks n k (drop k xs)"

definition view_groups :: "nat \<Rightarrow> 'a list \<Rightarrow> error + 'a list list" where
  "view_groups n rows =
     (if n = 0 \<or> length rows mod n \<noteq> 0 then Inl RuntimeError
      else Inr (chunks n (length rows div n) rows))"

definition index_embs ::
  "mat \<Rightarrow> mat \<Rightarrow> nat list \<Rightarrow> nat list \<Rightarrow> nat list list
     \<Rightarrow> error + (mat \<times> mat \<times> mat list \<times> mat list)" where
  "index_embs x r sub_ix rel_ix quals_ix =
     ebind (index_rows x sub_ix) (\<lambda>sub_emb.
     ebind (index_rows r rel_ix) (\<lambda>rel_emb.
     let quals_ents = concat (map odds quals_ix);
         quals_rels = concat (map evens quals_ix)
     in ebind (index_rows x quals_ents) (\<lambda>qual_obj_emb.
        ebind (index_rows r quals_rels) (\<lambda>qual_rel_emb.
        ebind (view_groups (length sub_emb) qual_obj_emb) (\<lambda>qual_obj_emb'.
        ebind (view_groups (length rel_emb) qual_rel_emb) (\<lambda>qual_rel_emb'.
        Inr (sub_emb, rel_emb, qual_obj_emb', qual_rel_emb')))))))"

definition index_embs_aux ::
  "mat \<Rightarrow> mat \<Rightarrow> nat list \<Rightarrow> nat list \<Rightarrow> nat list \<Rightarrow> nat list list
     \<Rightarrow> error + (mat \<times> mat \<times> mat list \<times> mat list \<times> mat)" where
  "index_embs_aux x r sub_ix rel_ix obj_ix quals_ix =
     ebind (index_rows x obj_ix) (\<lambda>obj_emb.
     ebind (index_embs x r sub_ix rel_ix quals_ix) (\<lambda>(s_emb, r_emb, qe_emb, qr_emb).
     Inr (s_emb, r_emb, qe_emb, qr_emb, obj_emb)))"

text \<open>
  \<open>parallel_forward\<close>. \<open>rnd\<close> is the random masking that the dropout call draws in
  training mode.
\<close>

definition parallel_forward ::
  "('k, 'p) hyp_rel_model \<Rightarrow> (mat \<Rightarrow> mat) \<Rightarrow> mat \<Rightarrow> mat \<Rightarrow> mat \<Rightarrow> error + (mat \<times> mat)" where
  "parallel_forward m rnd trip_ent_out ent_embs_in rel_embs_in =
     ebind (qual_encoder m ''qual'' ent_embs_in rel_embs_in) (\<lambda>(x, r).
     ebind (cat_dim1 trip_ent_out x) (\<lambda>joined.
     ebind (matmul joined (ent_parallel_matrix m)) (\<lambda>x1.
     let x2 = (if model_training m then rnd x1 else x1);
         x3 = ent_parallel_lnorm m x2
     in Inr (x3, r))))"

text \<open>
  Lines 104 to 116 of \<open>forward\<close>: the embeddings that the two encoders produce and
  that the rest of \<open>forward\<close> indexes and decodes.
\<close>

definition encode :: "('k, 'p) hyp_rel_model \<Rightarrow> (mat \<Rightarrow> mat) \<Rightarrow> error + (mat \<times> mat)" where
  "encode m rnd =
     (let init_ent = ent_embs m;
          init_rel = rel_embs m
      in ebind (trip_encoder m ''trip'' init_ent init_rel) (\<lambda>(x1, r1).
         if \<not> only_trips m then
           if parallel m then parallel_forward m rnd x1 init_ent r1
           else qual_encoder m ''qual'' x1 r1
         else Inr (x1, r1)))"

definition hyp_forward ::
  "('k, 'p) hyp_rel_model \<Rightarrow> (mat \<Rightarrow> mat) \<Rightarrow> nat list \<Rightarrow> nat list \<Rightarrow> nat list list
     \<Rightarrow> 'k aux_batch option \<Rightarrow> error + ('p \<times> 'p option)" where
  "hyp_forward m rnd sub_ix rel_ix quals_ix aux_ent =
     ebind (encode m rnd) (\<lambda>(x, r).
     ebind (index_embs x r sub_ix rel_ix quals_ix) (\<lambda>(s_emb, r_emb, qe_emb, qr_emb).
     ebind (decoder m s_emb r_emb qe_emb qr_emb x (length sub_ix) quals_ix None None)
       (\<lambda>obj_preds.
     case aux_ent of
       None \<Rightarrow> Inr (obj_preds, None)
     | Some aux \<Rightarrow>
         ebind (index_embs_aux x r (base_sub_ix aux) (base_rel_ix aux) (base_obj_ix aux)
                  (aux_quals aux)) (\<lambda>(s_emb', r_emb', qe_emb', qr_emb', o_emb).
         ebind (decoder m s_emb' r_emb' qe_emb' qr_emb' x (length (base_sub_ix aux))
                  (aux_quals aux) (Some o_emb) (Some (aux_mask aux))) (\<lambda>aux_ent_preds.
         Inr (obj_preds, Some aux_ent_preds))))))"

text \<open>
  The embedding stage as the specification words it for the parallel flag: the qualifier
  encoder on the original entity and relation embeddings, its entity output joined with
  the triple encoder's, projected, then dropout and layer normalisation.
\<close>

definition encode_as_specified ::
  "('k, 'p) hyp_rel_model \<Rightarrow> (mat \<Rightarrow> mat) \<Rightarrow> error + (mat \<times> mat)" where
  "encode_as_specified m rnd =
     ebind (trip_encoder m ''trip'' (ent_embs m) (rel_embs m)) (\<lambda>(x1, r1).
     ebind (qual_encoder m ''qual'' (ent_embs m) (rel_embs m)) (\<lambda>(xq, rq).
     ebind (cat_dim1 x1 xq) (\<lambda>joined.
     ebind (matmul joined (ent_parallel_matrix m)) (\<lambda>y.
     Inr (ent_parallel_lnorm m (if model_training m then rnd y else y), rq)))))"

text \<open>
  A model with two entities and one relation of width one: the triple encoder adds 1 to
  every entry, the qualifier encoder doubles every entry, the fusion matrix adds the two
  halves of a joined row, the layer normalisation is the identity.
\<close>

definition fusion_model :: "(unit, mat) hyp_rel_model" where
  "fusion_model =
     \<lparr>only_trips = False, parallel = True,
      ent_embs = [[1], [2]], rel_embs = [[5], [6]],
      trip_encoder = (\<lambda>t x r. Inr (map (map (\<lambda>v. v + 1)) x, map (map (\<lambda>v. v + 1)) r)),
      qual_encoder = (\<lambda>t x r. Inr (map (map (\<lambda>v. 2 * v)) x, map (map (\<lambda>v. 2 * v)) r)),
      decoder = (\<lambda>s r qe qr x n q tail k. Inr x),
      ent_parallel_matrix = [[1], [1]],
      ent_parallel_lnorm = (\<lambda>t. t),
      model_training = False\<rparr>"

section \<open>Properties of the training loop\<close>

subsection \<open>argmax and the early-stopping test\<close>

lemma argmax_scan_range: "bi < i \<Longrightarrow> argmax_scan xs i bv bi = bi \<or> i \<le> argmax_scan xs i bv bi"
proof (induction xs arbitrary: i bv bi)
  case Nil
  then show ?case by simp
next
  case (Cons x xs)
  have a: "argmax_scan xs (Suc i) x i = i \<or> Suc i \<le> argmax_scan xs (Suc i) x i"
    using Cons.IH [of i "Suc i" x] by simp
  have b: "argmax_scan xs (Suc i) bv bi = bi \<or> Suc i \<le> argmax_scan xs (Suc i) bv bi"
    using Cons.IH [of bi "Suc i" bv] Cons.prems by simp
  show ?case using a b by auto
qed

lemma argmax_scan_first: "bi < i \<Longrightarrow> (argmax_scan xs i bv bi = bi) = (\<forall>x\<in>set xs. x \<le> bv)"
proof (induction xs arbitrary: i bv bi)
  case Nil
  then show ?case by simp
next
  case (Cons x xs)
  show ?case
  proof (cases "bv < x")
    case True
    have "argmax_scan xs (Suc i) x i = i \<or> Suc i \<le> argmax_scan xs (Suc i) x i"
      using argmax_scan_range [of i "Suc i" xs x] by simp
    then have "argmax_scan xs (Suc i) x i \<noteq> bi" using Cons.prems by auto
    then show ?thesis using True by auto
  next
    case False
    have "(argmax_scan xs (Suc i) bv bi = bi) = (\<forall>x\<in>set xs. x \<le> bv)"
      using Cons.IH [of bi "Suc i" bv] Cons.prems by simp
    then show ?thesis using False by auto
  qed
qed

lemma np_argmax_first: "np_argmax (x # xs) = Inr a \<Longrightarrow> (a = 0) = (x = Max (set (x # xs)))"
proof -
  assume h: "np_argmax (x # xs) = Inr a"
  then have a: "a = argmax_scan xs 1 x 0" by simp
  have "(argmax_scan xs 1 x 0 = 0) = (\<forall>y\<in>set xs. y \<le> x)"
    using argmax_scan_first [of 0 1 xs x] by simp
  moreover have "(\<forall>y\<in>set xs. y \<le> x) = (x = Max (set (x # xs)))"
  proof
    assume "\<forall>y\<in>set xs. y \<le> x"
    then show "x = Max (set (x # xs))" by (intro Max_eqI [symmetric]) auto
  next
    assume e: "x = Max (set (x # xs))"
    show "\<forall>y\<in>set xs. y \<le> x"
    proof
      fix y assume "y \<in> set xs"
      then have "y \<le> Max (set (x # xs))" by (intro Max_ge) auto
      then show "y \<le> x" using e by simp
    qed
  qed
  ultimately show ?thesis using a by simp
qed

lemma early_stop_test_pos:
  assumes "0 < k"
  shows "early_stop_test (Some k) v =
     Inr (k \<le> int (length v) \<and>
          hd (drop (length v - nat k) v) = Max (set (drop (length v - nat k) v)))"
proof (cases "k \<le> int (length v)")
  case False
  then show ?thesis by (simp add: early_stop_test_def)
next
  case True
  let ?w = "drop (length v - nat k) v"
  have sl: "py_slice_from (- k) v = ?w"
    using assms True by (simp add: py_slice_from_def nat_diff_distrib' max_def)
  have "length ?w = nat k" using True assms by simp
  then have "?w \<noteq> []" using assms by auto
  then obtain x xs where w: "?w = x # xs" by (cases ?w) auto
  have "np_argmax ?w = Inr (argmax_scan xs 1 x 0)" using w by simp
  then have "(argmax_scan xs 1 x 0 = 0) = (hd ?w = Max (set ?w))"
    using np_argmax_first [of x xs "argmax_scan xs 1 x 0"] w by simp
  then show ?thesis using True sl w by (simp add: early_stop_test_def)
qed

subsection \<open>The batch loop\<close>

lemma batch_loop_trace:
  "batch_loop p e i bs l tr = Inr (l', tr') \<Longrightarrow>
     \<exists>ev. tr' = tr @ ev \<and> (\<forall>x\<in>set ev. is_batch_event x \<and> epoch_of x = e)"
proof (induction bs arbitrary: i l tr)
  case Nil
  then show ?case by simp
next
  case (Cons b bs)
  from Cons.prems obtain loss where
    q: "qualifier_aware p" and
    m: "model_loss p e i (b_sub b) (b_rel b) (b_quals b) (b_labels b) = Inr loss" and
    r: "batch_loop p e (Suc i) bs (l @ [loss])
          (tr @ [ZeroGrad e i] @ [ModelCall e i, LossBackward e i]
             @ (if grad_clipping p then [ClipGradNorm e i] else []) @ [OptStep e i]) = Inr (l', tr')"
    by (auto simp: Let_def split: if_splits sum.splits)
  from Cons.IH [OF r] obtain ev where
    ev: "tr' = (tr @ [ZeroGrad e i] @ [ModelCall e i, LossBackward e i]
             @ (if grad_clipping p then [ClipGradNorm e i] else []) @ [OptStep e i]) @ ev"
      "\<forall>x\<in>set ev. is_batch_event x \<and> epoch_of x = e" by blast
  show ?case
    by (rule exI [of _ "[ZeroGrad e i] @ [ModelCall e i, LossBackward e i]
             @ (if grad_clipping p then [ClipGradNorm e i] else []) @ [OptStep e i] @ ev"])
       (use ev in auto)
qed

lemma batch_loop_unbound:
  "\<not> qualifier_aware p \<Longrightarrow> bs \<noteq> [] \<Longrightarrow>
     batch_loop p e i bs l tr = Inl (UnboundLocalError, tr @ [ZeroGrad e i])"
  by (cases bs) (simp_all add: Let_def)

lemma batch_loop_ok_quals:
  "batch_loop p e i bs l tr = Inr r \<Longrightarrow> \<not> qualifier_aware p \<Longrightarrow> bs = []"
  using batch_loop_unbound [of p bs e i l tr] by auto

subsection \<open>One epoch\<close>

lemma evals_Suc: "evals p (Suc m) = evals p m @ (if int (Suc m) mod eval_every p = 0 then [Suc m] else [])"
  by (simp add: evals_def)

lemma evaluate_simps:
  "train_loss (evaluate p e st) = train_loss st"
  "valid_acc (evaluate p e st) = valid_acc st @ [hits_at_1 (val_testbench p e)]"
  "valid_mrr (evaluate p e st) = valid_mrr st @ [mrr (val_testbench p e)]"
  "valid_mr (evaluate p e st) = valid_mr st @ [mr (val_testbench p e)]"
  "valid_hits_3 (evaluate p e st) = valid_hits_3 st @ [hits_at_3 (val_testbench p e)]"
  "valid_hits_5 (evaluate p e st) = valid_hits_5 st @ [hits_at_5 (val_testbench p e)]"
  "valid_hits_10 (evaluate p e st) = valid_hits_10 st @ [hits_at_10 (val_testbench p e)]"
  "trace (evaluate p e st) = trace st @ [NoGrad e, ValTestbench e]"
  by (simp_all add: evaluate_def Let_def)

lemma scheduler_step_simps:
  "train_loss (scheduler_step p e st) = train_loss st"
  "valid_acc (scheduler_step p e st) = valid_acc st"
  "valid_mrr (scheduler_step p e st) = valid_mrr st"
  "valid_mr (scheduler_step p e st) = valid_mr st"
  "valid_hits_3 (scheduler_step p e st) = valid_hits_3 st"
  "valid_hits_5 (scheduler_step p e st) = valid_hits_5 st"
  "valid_hits_10 (scheduler_step p e st) = valid_hits_10 st"
  "trace (scheduler_step p e st) = trace st @ (if scheduler p then [SchedulerStep e] else [])"
  by (simp_all add: scheduler_step_def)

lemma epoch_body_shape:
  assumes "epoch_body p e st = Inr r" and e1: "1 \<le> e"
  shows "\<exists>bev loss. (\<forall>x\<in>set bev. is_batch_event x \<and> epoch_of x = e)
     \<and> trace (state_of r) = trace st @ epoch_events p e (is_break r) bev
     \<and> train_loss (state_of r) = train_loss st @ [loss]
     \<and> eval_every p \<noteq> 0
     \<and> (is_break r \<longrightarrow> int e mod eval_every p = 0)
     \<and> (\<not> qualifier_aware p \<longrightarrow> data_fn p e = [])"
proof -
  from assms obtain l tr where
    bl: "batch_loop p e 0 (data_fn p e) [] (trace st @ [DataFn e, ModelTrain e]) = Inr (l, tr)"
    by (auto simp: epoch_body_def split: sum.splits)
  from batch_loop_trace [OF bl] obtain bev where
    bev: "tr = (trace st @ [DataFn e, ModelTrain e]) @ bev"
         "\<forall>x\<in>set bev. is_batch_event x \<and> epoch_of x = e" by blast
  have qa: "\<not> qualifier_aware p \<longrightarrow> data_fn p e = []"
    using batch_loop_ok_quals [OF bl] by simp
  define st1 where "st1 = st\<lparr>train_loss := train_loss st @ [np_mean l], trace := tr\<rparr>"
  have nz: "eval_every p \<noteq> 0" using assms bl by (auto simp: epoch_body_def Let_def)
  show ?thesis
  proof (cases "int e mod eval_every p = 0 \<and> e \<ge> 1")
    case False
    then have ne: "int e mod eval_every p \<noteq> 0" using e1 by auto
    have r: "r = Continue (scheduler_step p e st1)"
      using assms bl nz False by (auto simp: epoch_body_def Let_def st1_def)
    show ?thesis
      apply (rule exI [of _ bev], rule exI [of _ "np_mean l"])
      using bev qa nz ne r by (simp add: scheduler_step_simps st1_def epoch_events_def)
  next
    case True
    define st2 where "st2 = evaluate p e st1"
    have eb: "epoch_body p e st =
      (case early_stop_test (early_stopping p) (valid_mrr st2) of
                      Inl err \<Rightarrow> Inl (err, trace st2)
                    | Inr True \<Rightarrow> Inr (Break (st2\<lparr>trace := trace st2 @ [EarlyStop e]\<rparr>))
                    | Inr False \<Rightarrow> Inr (Continue (scheduler_step p e st2)))"
      unfolding st1_def st2_def using bl nz True by (simp add: epoch_body_def Let_def)
    from assms eb obtain b where b: "early_stop_test (early_stopping p) (valid_mrr st2) = Inr b"
      by (auto split: sum.splits)
    show ?thesis
    proof (cases b)
      case True
      then have r: "r = Break (st2\<lparr>trace := trace st2 @ [EarlyStop e]\<rparr>)"
        using assms eb b by simp
      show ?thesis
        apply (rule exI [of _ bev], rule exI [of _ "np_mean l"])
        using bev qa nz \<open>int e mod eval_every p = 0 \<and> e \<ge> 1\<close> r
        by (simp add: evaluate_simps st1_def st2_def epoch_events_def)
    next
      case False
      then have r: "r = Continue (scheduler_step p e st2)"
        using assms eb b by simp
      show ?thesis
        apply (rule exI [of _ bev], rule exI [of _ "np_mean l"])
        using bev qa nz \<open>int e mod eval_every p = 0 \<and> e \<ge> 1\<close> r
        by (simp add: evaluate_simps scheduler_step_simps st1_def st2_def epoch_events_def)
    qed
  qed
qed

lemma epoch_body_histories:
  assumes "epoch_body p e st = Inr r" and e1: "1 \<le> e"
  shows "valid_acc (state_of r) = valid_acc st @ (if int e mod eval_every p = 0 then [hits_at_1 (val_testbench p e)] else [])"
    and "valid_mrr (state_of r) = valid_mrr st @ (if int e mod eval_every p = 0 then [mrr (val_testbench p e)] else [])"
    and "valid_mr (state_of r) = valid_mr st @ (if int e mod eval_every p = 0 then [mr (val_testbench p e)] else [])"
    and "valid_hits_3 (state_of r) = valid_hits_3 st @ (if int e mod eval_every p = 0 then [hits_at_3 (val_testbench p e)] else [])"
    and "valid_hits_5 (state_of r) = valid_hits_5 st @ (if int e mod eval_every p = 0 then [hits_at_5 (val_testbench p e)] else [])"
    and "valid_hits_10 (state_of r) = valid_hits_10 st @ (if int e mod eval_every p = 0 then [hits_at_10 (val_testbench p e)] else [])"
proof -
  from assms obtain l tr where
    bl: "batch_loop p e 0 (data_fn p e) [] (trace st @ [DataFn e, ModelTrain e]) = Inr (l, tr)"
    by (auto simp: epoch_body_def split: sum.splits)
  define st1 where "st1 = st\<lparr>train_loss := train_loss st @ [np_mean l], trace := tr\<rparr>"
  have nz: "eval_every p \<noteq> 0" using assms bl by (auto simp: epoch_body_def Let_def)
  have "state_of r = (if int e mod eval_every p = 0 \<and> e \<ge> 1 then
     (case early_stop_test (early_stopping p) (valid_mrr (evaluate p e st1)) of
         Inr True \<Rightarrow> (evaluate p e st1)\<lparr>trace := trace (evaluate p e st1) @ [EarlyStop e]\<rparr>
       | _ \<Rightarrow> scheduler_step p e (evaluate p e st1))
     else scheduler_step p e st1)"
    using assms bl nz by (auto simp: epoch_body_def Let_def st1_def split: sum.splits bool.splits)
  moreover have "int e mod eval_every p = 0 \<Longrightarrow> e \<ge> 1" using e1 by simp
  ultimately have s: "state_of r = (if int e mod eval_every p = 0 then
     (case early_stop_test (early_stopping p) (valid_mrr (evaluate p e st1)) of
         Inr True \<Rightarrow> (evaluate p e st1)\<lparr>trace := trace (evaluate p e st1) @ [EarlyStop e]\<rparr>
       | _ \<Rightarrow> scheduler_step p e (evaluate p e st1))
     else scheduler_step p e st1)" by auto
  show "valid_acc (state_of r) = valid_acc st @ (if int e mod eval_every p = 0 then [hits_at_1 (val_testbench p e)] else [])"
    unfolding s by (simp add: evaluate_simps scheduler_step_simps st1_def split: sum.splits bool.splits)
  show "valid_mrr (state_of r) = valid_mrr st @ (if int e mod eval_every p = 0 then [mrr (val_testbench p e)] else [])"
    unfolding s by (simp add: evaluate_simps scheduler_step_simps st1_def split: sum.splits bool.splits)
  show "valid_mr (state_of r) = valid_mr st @ (if int e mod eval_every p = 0 then [mr (val_testbench p e)] else [])"
    unfolding s by (simp add: evaluate_simps scheduler_step_simps st1_def split: sum.splits bool.splits)
  show "valid_hits_3 (state_of r) = valid_hits_3 st @ (if int e mod eval_every p = 0 then [hits_at_3 (val_testbench p e)] else [])"
    unfolding s by (simp add: evaluate_simps scheduler_step_simps st1_def split: sum.splits bool.splits)
  show "valid_hits_5 (state_of r) = valid_hits_5 st @ (if int e mod eval_every p = 0 then [hits_at_5 (val_testbench p e)] else [])"
    unfolding s by (simp add: evaluate_simps scheduler_step_simps st1_def split: sum.splits bool.splits)
  show "valid_hits_10 (state_of r) = valid_hits_10 st @ (if int e mod eval_every p = 0 then [hits_at_10 (val_testbench p e)] else [])"
    unfolding s by (simp add: evaluate_simps scheduler_step_simps st1_def split: sum.splits bool.splits)
qed

lemma batch_event_notin:
  assumes "\<forall>x\<in>set bev. is_batch_event x \<and> epoch_of x = e"
  shows "DataFn a \<notin> set bev" "ModelTrain a \<notin> set bev" "NoGrad a \<notin> set bev"
    "ValTestbench a \<notin> set bev" "EarlyStop a \<notin> set bev" "SchedulerStep a \<notin> set bev"
  using assms by auto

lemma epoch_events_mem:
  assumes "\<forall>x\<in>set bev. is_batch_event x \<and> epoch_of x = e"
  shows "DataFn a \<in> set (epoch_events p e brk bev) \<longleftrightarrow> a = e"
    and "ValTestbench a \<in> set (epoch_events p e brk bev) \<longleftrightarrow> a = e \<and> int e mod eval_every p = 0"
    and "NoGrad a \<in> set (epoch_events p e brk bev) \<longleftrightarrow> a = e \<and> int e mod eval_every p = 0"
    and "EarlyStop a \<in> set (epoch_events p e brk bev) \<longleftrightarrow> a = e \<and> brk"
    and "count_list (epoch_events p e brk bev) (SchedulerStep a) = (if a = e \<and> \<not> brk \<and> scheduler p then 1 else 0)"
    and "\<forall>x\<in>set (epoch_events p e brk bev). epoch_of x = e"
proof -
  note n = batch_event_notin [OF assms]
  show "DataFn a \<in> set (epoch_events p e brk bev) \<longleftrightarrow> a = e"
    using n(1) [of a] by (auto simp: epoch_events_def)
  show "ValTestbench a \<in> set (epoch_events p e brk bev) \<longleftrightarrow> a = e \<and> int e mod eval_every p = 0"
    using n(4) [of a] by (auto simp: epoch_events_def)
  show "NoGrad a \<in> set (epoch_events p e brk bev) \<longleftrightarrow> a = e \<and> int e mod eval_every p = 0"
    using n(3) [of a] by (auto simp: epoch_events_def)
  show "EarlyStop a \<in> set (epoch_events p e brk bev) \<longleftrightarrow> a = e \<and> brk"
    using n(5) [of a] by (auto simp: epoch_events_def)
  have "count_list bev (SchedulerStep a) = 0" using n(6) [of a] by (simp add: count_list_0_iff)
  then show "count_list (epoch_events p e brk bev) (SchedulerStep a) = (if a = e \<and> \<not> brk \<and> scheduler p then 1 else 0)"
    by (simp add: epoch_events_def)
  show "\<forall>x\<in>set (epoch_events p e brk bev). epoch_of x = e"
    using assms by (auto simp: epoch_events_def)
qed

subsection \<open>The invariant of the epoch loop\<close>

lemma ranD:
  assumes "ran p m b st"
  shows "length (train_loss st) = m"
    and "valid_acc st = map (\<lambda>e. hits_at_1 (val_testbench p e)) (evals p m)"
    and "valid_mrr st = map (\<lambda>e. mrr (val_testbench p e)) (evals p m)"
    and "valid_mr st = map (\<lambda>e. mr (val_testbench p e)) (evals p m)"
    and "valid_hits_3 st = map (\<lambda>e. hits_at_3 (val_testbench p e)) (evals p m)"
    and "valid_hits_5 st = map (\<lambda>e. hits_at_5 (val_testbench p e)) (evals p m)"
    and "valid_hits_10 st = map (\<lambda>e. hits_at_10 (val_testbench p e)) (evals p m)"
    and "DataFn e \<in> set (trace st) \<longleftrightarrow> 1 \<le> e \<and> e \<le> m"
    and "ValTestbench e \<in> set (trace st) \<longleftrightarrow> 1 \<le> e \<and> e \<le> m \<and> int e mod eval_every p = 0"
    and "NoGrad e \<in> set (trace st) \<longleftrightarrow> 1 \<le> e \<and> e \<le> m \<and> int e mod eval_every p = 0"
    and "EarlyStop e \<in> set (trace st) \<longleftrightarrow> b \<and> e = m"
    and "count_list (trace st) (SchedulerStep e) =
          (if scheduler p \<and> 1 \<le> e \<and> e \<le> m \<and> \<not> (b \<and> e = m) then 1 else 0)"
    and "\<not> qualifier_aware p \<Longrightarrow> 1 \<le> e \<Longrightarrow> e \<le> m \<Longrightarrow> data_fn p e = []"
    and "b \<Longrightarrow> 1 \<le> m \<and> int m mod eval_every p = 0"
  using assms by (simp_all add: ran_def)

lemma ranI:
  assumes "length (train_loss st) = m"
    and "valid_acc st = map (\<lambda>e. hits_at_1 (val_testbench p e)) (evals p m)"
    and "valid_mrr st = map (\<lambda>e. mrr (val_testbench p e)) (evals p m)"
    and "valid_mr st = map (\<lambda>e. mr (val_testbench p e)) (evals p m)"
    and "valid_hits_3 st = map (\<lambda>e. hits_at_3 (val_testbench p e)) (evals p m)"
    and "valid_hits_5 st = map (\<lambda>e. hits_at_5 (val_testbench p e)) (evals p m)"
    and "valid_hits_10 st = map (\<lambda>e. hits_at_10 (val_testbench p e)) (evals p m)"
    and "\<forall>e. DataFn e \<in> set (trace st) \<longleftrightarrow> 1 \<le> e \<and> e \<le> m"
    and "\<forall>e. ValTestbench e \<in> set (trace st) \<longleftrightarrow> 1 \<le> e \<and> e \<le> m \<and> int e mod eval_every p = 0"
    and "\<forall>e. NoGrad e \<in> set (trace st) \<longleftrightarrow> 1 \<le> e \<and> e \<le> m \<and> int e mod eval_every p = 0"
    and "\<forall>e. EarlyStop e \<in> set (trace st) \<longleftrightarrow> b \<and> e = m"
    and "\<forall>e. count_list (trace st) (SchedulerStep e) =
          (if scheduler p \<and> 1 \<le> e \<and> e \<le> m \<and> \<not> (b \<and> e = m) then 1 else 0)"
    and "\<not> qualifier_aware p \<longrightarrow> (\<forall>e. 1 \<le> e \<and> e \<le> m \<longrightarrow> data_fn p e = [])"
    and "b \<longrightarrow> 1 \<le> m \<and> int m mod eval_every p = 0"
  shows "ran p m b st"
  unfolding ran_def
  apply (rule conjI, rule assms(1))
  apply (rule conjI, rule assms(2))
  apply (rule conjI, rule assms(3))
  apply (rule conjI, rule assms(4))
  apply (rule conjI, rule assms(5))
  apply (rule conjI, rule assms(6))
  apply (rule conjI, rule assms(7))
  apply (rule conjI, rule assms(8))
  apply (rule conjI, rule assms(9))
  apply (rule conjI, rule assms(10))
  apply (rule conjI, rule assms(11))
  apply (rule conjI, rule assms(12))
  apply (rule conjI, rule assms(13))
  apply (rule assms(14))
  done

lemma ran_init: "ran p 0 False init_state"
  by (simp add: ran_def init_state_def evals_def)

lemma ran_step:
  assumes r: "ran p m False st" and eb: "epoch_body p (Suc m) st = Inr r"
  shows "ran p (Suc m) (is_break r) (state_of r)"
proof -
  have e1: "1 \<le> Suc m" by simp
  from epoch_body_shape [OF eb e1] obtain bev loss where
    bev: "\<forall>x\<in>set bev. is_batch_event x \<and> epoch_of x = Suc m" and
    tr: "trace (state_of r) = trace st @ epoch_events p (Suc m) (is_break r) bev" and
    tl: "train_loss (state_of r) = train_loss st @ [loss]" and
    brk: "is_break r \<longrightarrow> int (Suc m) mod eval_every p = 0" and
    qa: "\<not> qualifier_aware p \<longrightarrow> data_fn p (Suc m) = []" by (elim exE conjE)
  note h = epoch_body_histories [OF eb e1]
  note mem = epoch_events_mem [OF bev]
  note d = ranD [OF r]
  have 1: "length (train_loss (state_of r)) = Suc m" using d(1) tl by simp
  have 2: "valid_acc (state_of r) = map (\<lambda>e. hits_at_1 (val_testbench p e)) (evals p (Suc m))"
    using d(2) h(1) by (simp add: evals_Suc)
  have 3: "valid_mrr (state_of r) = map (\<lambda>e. mrr (val_testbench p e)) (evals p (Suc m))"
    using d(3) h(2) by (simp add: evals_Suc)
  have 4: "valid_mr (state_of r) = map (\<lambda>e. mr (val_testbench p e)) (evals p (Suc m))"
    using d(4) h(3) by (simp add: evals_Suc)
  have 5: "valid_hits_3 (state_of r) = map (\<lambda>e. hits_at_3 (val_testbench p e)) (evals p (Suc m))"
    using d(5) h(4) by (simp add: evals_Suc)
  have 6: "valid_hits_5 (state_of r) = map (\<lambda>e. hits_at_5 (val_testbench p e)) (evals p (Suc m))"
    using d(6) h(5) by (simp add: evals_Suc)
  have 7: "valid_hits_10 (state_of r) = map (\<lambda>e. hits_at_10 (val_testbench p e)) (evals p (Suc m))"
    using d(7) h(6) by (simp add: evals_Suc)
  have 8: "\<forall>e. DataFn e \<in> set (trace (state_of r)) \<longleftrightarrow> 1 \<le> e \<and> e \<le> Suc m"
  proof
    fix e
    show "DataFn e \<in> set (trace (state_of r)) \<longleftrightarrow> 1 \<le> e \<and> e \<le> Suc m"
      unfolding tr set_append Un_iff mem(1) d(8) by (cases "e = Suc m") auto
  qed
  have 9: "\<forall>e. ValTestbench e \<in> set (trace (state_of r)) \<longleftrightarrow> 1 \<le> e \<and> e \<le> Suc m \<and> int e mod eval_every p = 0"
  proof
    fix e
    show "ValTestbench e \<in> set (trace (state_of r)) \<longleftrightarrow> 1 \<le> e \<and> e \<le> Suc m \<and> int e mod eval_every p = 0"
      unfolding tr set_append Un_iff mem(2) d(9) by (cases "e = Suc m") auto
  qed
  have 10: "\<forall>e. NoGrad e \<in> set (trace (state_of r)) \<longleftrightarrow> 1 \<le> e \<and> e \<le> Suc m \<and> int e mod eval_every p = 0"
  proof
    fix e
    show "NoGrad e \<in> set (trace (state_of r)) \<longleftrightarrow> 1 \<le> e \<and> e \<le> Suc m \<and> int e mod eval_every p = 0"
      unfolding tr set_append Un_iff mem(3) d(10) by (cases "e = Suc m") auto
  qed
  have 11: "\<forall>e. EarlyStop e \<in> set (trace (state_of r)) \<longleftrightarrow> is_break r \<and> e = Suc m"
  proof
    fix e
    show "EarlyStop e \<in> set (trace (state_of r)) \<longleftrightarrow> is_break r \<and> e = Suc m"
      unfolding tr set_append Un_iff mem(4) d(11) by auto
  qed
  have 12: "\<forall>e. count_list (trace (state_of r)) (SchedulerStep e) =
          (if scheduler p \<and> 1 \<le> e \<and> e \<le> Suc m \<and> \<not> (is_break r \<and> e = Suc m) then 1 else 0)"
  proof
    fix e
    show "count_list (trace (state_of r)) (SchedulerStep e) =
          (if scheduler p \<and> 1 \<le> e \<and> e \<le> Suc m \<and> \<not> (is_break r \<and> e = Suc m) then 1 else 0)"
      unfolding tr count_list_append mem(5) d(12) by (cases "e = Suc m") auto
  qed
  have 13: "\<not> qualifier_aware p \<longrightarrow> (\<forall>e. 1 \<le> e \<and> e \<le> Suc m \<longrightarrow> data_fn p e = [])"
  proof (intro impI allI)
    fix e assume q: "\<not> qualifier_aware p" and e: "1 \<le> e \<and> e \<le> Suc m"
    show "data_fn p e = []"
    proof (cases "e = Suc m")
      case True then show ?thesis using qa q by simp
    next
      case False
      then have "1 \<le> e" "e \<le> m" using e by simp_all
      then show ?thesis using d(13) [OF q] by simp
    qed
  qed
  have 14: "is_break r \<longrightarrow> 1 \<le> Suc m \<and> int (Suc m) mod eval_every p = 0" using brk by simp
  show ?thesis
    by (rule ranI [OF 1 2 3 4 5 6 7 8 9 10 11 12 13 14])
qed

lemma epoch_loop_ran:
  "epoch_loop p n (Suc m) st = Inr st' \<Longrightarrow> ran p m False st \<Longrightarrow> \<exists>m' b. ran p m' b st' \<and> m \<le> m' \<and> m' \<le> m + n"
proof (induction n arbitrary: m st)
  case 0
  then show ?case by auto
next
  case (Suc n)
  from Suc.prems(1) obtain r where eb: "epoch_body p (Suc m) st = Inr r"
    by (auto split: sum.splits)
  note step = ran_step [OF Suc.prems(2) eb]
  show ?case
  proof (cases r)
    case (Break st2)
    then have "st' = st2" using Suc.prems(1) eb by simp
    then have "ran p (Suc m) True st'" using step Break by simp
    then show ?thesis by (intro exI [of _ "Suc m"] exI [of _ True]) simp
  next
    case (Continue st2)
    then have l: "epoch_loop p n (Suc (Suc m)) st2 = Inr st'" using Suc.prems(1) eb by simp
    have "ran p (Suc m) False st2" using step Continue by simp
    from Suc.IH [OF l this] obtain m' b where "ran p m' b st'" "Suc m \<le> m'" "m' \<le> Suc m + n" by blast
    then show ?thesis by (intro exI [of _ m'] exI [of _ b]) simp
  qed
qed

lemma training_loop_ran:
  assumes "training_loop_gcn p = Inr st"
  shows "\<exists>m b. ran p m b st \<and> m \<le> nat (epochs p)"
  using epoch_loop_ran [of p "nat (epochs p)" 0 init_state st] assms ran_init [of p]
  by (auto simp: training_loop_gcn_def)

subsection \<open>The concrete run, evaluated\<close>

lemma scenario_run: "training_loop_gcn scenario_params = Inr scenario_final"
  by code_simp

lemma scenario_epoch3: "epoch_body scenario_params 3 scenario_after2 = Inr (Break scenario_final)"
  by code_simp

subsection \<open>When validation runs\<close>

text \<open>
  Claim C1, as the code has it. In a run that returns, the validation benchmark is called
  in epoch \<open>e\<close> exactly when that epoch ran and \<open>e mod eval_every = 0\<close> (the guard
  \<open>e >= 1\<close> of line 98 holds for every epoch of \<open>range(1, epochs + 1)\<close>); the call
  is made with gradient tracking disabled; and each of the six histories (hits@1, MRR, MR,
  hits@3, hits@5, hits@10) holds the metric of the benchmark's result for exactly those
  epochs, in order. Epoch 1 has no special treatment.
\<close>

theorem validation_schedule:
  assumes "training_loop_gcn p = Inr st"
  shows "(ValTestbench e \<in> set (trace st) \<longleftrightarrow>
            DataFn e \<in> set (trace st) \<and> int e mod eval_every p = 0)
       \<and> (NoGrad e \<in> set (trace st) \<longleftrightarrow> ValTestbench e \<in> set (trace st))
       \<and> valid_acc st = map (\<lambda>e. hits_at_1 (val_testbench p e))
            (filter (\<lambda>e. int e mod eval_every p = 0) [1..<Suc (length (train_loss st))])
       \<and> valid_mrr st = map (\<lambda>e. mrr (val_testbench p e))
            (filter (\<lambda>e. int e mod eval_every p = 0) [1..<Suc (length (train_loss st))])
       \<and> valid_mr st = map (\<lambda>e. mr (val_testbench p e))
            (filter (\<lambda>e. int e mod eval_every p = 0) [1..<Suc (length (train_loss st))])
       \<and> valid_hits_3 st = map (\<lambda>e. hits_at_3 (val_testbench p e))
            (filter (\<lambda>e. int e mod eval_every p = 0) [1..<Suc (length (train_loss st))])
       \<and> valid_hits_5 st = map (\<lambda>e. hits_at_5 (val_testbench p e))
            (filter (\<lambda>e. int e mod eval_every p = 0) [1..<Suc (length (train_loss st))])
       \<and> valid_hits_10 st = map (\<lambda>e. hits_at_10 (val_testbench p e))
            (filter (\<lambda>e. int e mod eval_every p = 0) [1..<Suc (length (train_loss st))])"
proof -
  from training_loop_ran [OF assms] obtain m b where r: "ran p m b st" by blast
  note d = ranD [OF r]
  have len: "length (train_loss st) = m" by (rule d(1))
  have a: "ValTestbench e \<in> set (trace st) \<longleftrightarrow>
            DataFn e \<in> set (trace st) \<and> int e mod eval_every p = 0"
    unfolding d(8) d(9) by simp
  have b: "NoGrad e \<in> set (trace st) \<longleftrightarrow> ValTestbench e \<in> set (trace st)"
    unfolding d(9) d(10) by simp
  show ?thesis
    unfolding len using a b d(2-7) by (simp add: evals_def)
qed

theorem validation_schedule_witness:
  "training_loop_gcn scenario_params = Inr scenario_final
   \<and> ValTestbench 2 \<in> set (trace scenario_final)
   \<and> valid_mrr scenario_final = [0.5, 0.3, 0.2]"
proof -
  have run: "training_loop_gcn scenario_params = Inr scenario_final" by (rule scenario_run)
  have "ValTestbench 2 \<in> set (trace scenario_final) \<longleftrightarrow>
            DataFn 2 \<in> set (trace scenario_final) \<and> int 2 mod eval_every scenario_params = 0"
    using validation_schedule [OF run, of 2] by (rule conjunct1)
  moreover have "DataFn 2 \<in> set (trace scenario_final)"
    by (simp add: scenario_final_def epoch_trace_def)
  moreover have "int 2 mod eval_every scenario_params = 0" by (simp add: scenario_params_def)
  ultimately have "ValTestbench 2 \<in> set (trace scenario_final)" by blast
  moreover have "valid_mrr scenario_final = [0.5, 0.3, 0.2]" by (simp add: scenario_final_def)
  ultimately show ?thesis using run by blast
qed

text \<open>
  Claim C1 as stated fails: with \<open>eval_every = 2\<close> the loop runs epoch 1 to its end
  (the scheduler is stepped) without calling the benchmark, and every validation history
  is empty when it returns.
\<close>

theorem epoch_one_not_validated:
  "training_loop_gcn sparse_eval_params =
     Inr \<lparr>train_loss = [Fin 1], valid_acc = [], valid_mrr = [], valid_mr = [],
          valid_hits_3 = [], valid_hits_5 = [], valid_hits_10 = [],
          trace = [DataFn 1, ModelTrain 1, ZeroGrad 1 0, ModelCall 1 0, LossBackward 1 0,
                   ClipGradNorm 1 0, OptStep 1 0, SchedulerStep 1]\<rparr>"
  by code_simp

subsection \<open>Early stopping\<close>

text \<open>
  The test of line 133 for a window \<open>k\<close> that is not negative, on a history that is not
  empty: \<open>valid_mrr[-k:]\<close> is the list of the last \<open>k\<close> entries, and the whole list
  for \<open>k = 0\<close>.
\<close>

lemma early_stop_test_nonneg:
  assumes "0 \<le> k" and "v \<noteq> []"
  shows "early_stop_test (Some k) v =
     Inr (k \<le> int (length v) \<and>
          hd (if k = 0 then v else drop (length v - nat k) v)
            = Max (set (if k = 0 then v else drop (length v - nat k) v)))"
proof (cases "k = 0")
  case True
  from assms(2) obtain x xs where v: "v = x # xs" by (cases v) auto
  have "np_argmax v = Inr (argmax_scan xs 1 x 0)" using v by simp
  moreover have "(argmax_scan xs 1 x 0 = 0) = (hd v = Max (set v))"
    using np_argmax_first [of x xs "argmax_scan xs 1 x 0"] v by simp
  ultimately show ?thesis using True by (simp add: early_stop_test_def py_slice_from_def)
next
  case False
  then have "0 < k" using assms(1) by simp
  then show ?thesis using False by (simp add: early_stop_test_pos)
qed

text \<open>Without a window (\<open>early_stopping=None\<close>) the loop body never ends in \<open>break\<close>.\<close>

lemma no_window_no_break:
  assumes "early_stopping p = None" and "epoch_body p e st = Inr r"
  shows "\<not> is_break r"
  using assms
  by (auto simp: epoch_body_def Let_def early_stop_test_def split: sum.splits prod.splits if_splits)

text \<open>A run that returns hands back the tuple of its lists.\<close>

lemma value_of_run:
  "training_loop_gcn p = Inr st \<Longrightarrow> training_loop_gcn_value p = Inr (returned st)"
  by (simp add: training_loop_gcn_value_def)

text \<open>
  Claim C7. For a window \<open>k\<close> (not negative: \<open>valid_mrr[-k:]\<close> is the list of the
  last \<open>k\<close> entries, the whole history for \<open>k = 0\<close>), the pass through the loop body
  for epoch \<open>e\<close> ends in \<open>break\<close> exactly when validation ran in that epoch, the MRR
  history (with the new entry) has at least \<open>k\<close> entries, and the first entry of the
  window is the maximum of the window. In that case the loop ends, whatever number of epochs
  remains, and the tuple that is returned holds the lists as they stand: no training
  accuracy and no training-benchmark entries, the losses and the validation histories of
  the epochs so far with those of this epoch appended. Otherwise the loop goes on with the
  next epoch. And a call that returns after early stopping in epoch \<open>e'\<close> hands back
  exactly the histories of the epochs 1 to \<open>e'\<close>; no later epoch was begun. (Floats are
  compared as reals; \<open>nan\<close> is not modelled.)
\<close>

theorem early_stopping_exact:
  assumes es: "early_stopping p = Some k" and k: "0 \<le> k" and e1: "1 \<le> e"
      and eb: "epoch_body p e st = Inr r"
  shows "(let h = valid_mrr (state_of r);
              w = (if k = 0 then h else drop (length h - nat k) h)
          in is_break r \<longleftrightarrow>
               int e mod eval_every p = 0 \<and> k \<le> int (length h) \<and> hd w = Max (set w))
       \<and> (if is_break r
           then epoch_loop p (Suc n) e st = Inr (state_of r)
              \<and> (\<exists>loss. returned (state_of r) =
                    ([], train_loss st @ [loss], [], [], [], [], [],
                     valid_acc st @ [hits_at_1 (val_testbench p e)],
                     valid_mrr st @ [mrr (val_testbench p e)],
                     valid_hits_3 st @ [hits_at_3 (val_testbench p e)],
                     valid_hits_5 st @ [hits_at_5 (val_testbench p e)],
                     valid_hits_10 st @ [hits_at_10 (val_testbench p e)]))
           else epoch_loop p (Suc n) e st = epoch_loop p n (Suc e) (state_of r))
       \<and> (\<forall>st' e'. training_loop_gcn p = Inr st' \<and> EarlyStop e' \<in> set (trace st') \<longrightarrow>
             training_loop_gcn_value p =
               Inr ([], train_loss st', [], [], [], [], [],
                    valid_acc st', valid_mrr st', valid_hits_3 st', valid_hits_5 st',
                    valid_hits_10 st')
           \<and> length (train_loss st') = e'
           \<and> valid_acc st' = map (\<lambda>i. hits_at_1 (val_testbench p i))
                (filter (\<lambda>i. int i mod eval_every p = 0) [1..<Suc e'])
           \<and> valid_mrr st' = map (\<lambda>i. mrr (val_testbench p i))
                (filter (\<lambda>i. int i mod eval_every p = 0) [1..<Suc e'])
           \<and> valid_hits_3 st' = map (\<lambda>i. hits_at_3 (val_testbench p i))
                (filter (\<lambda>i. int i mod eval_every p = 0) [1..<Suc e'])
           \<and> valid_hits_5 st' = map (\<lambda>i. hits_at_5 (val_testbench p i))
                (filter (\<lambda>i. int i mod eval_every p = 0) [1..<Suc e'])
           \<and> valid_hits_10 st' = map (\<lambda>i. hits_at_10 (val_testbench p i))
                (filter (\<lambda>i. int i mod eval_every p = 0) [1..<Suc e'])
           \<and> (\<forall>i. DataFn i \<in> set (trace st') \<longleftrightarrow> 1 \<le> i \<and> i \<le> e'))"
proof -
  from eb obtain l tr where
    bl: "batch_loop p e 0 (data_fn p e) [] (trace st @ [DataFn e, ModelTrain e]) = Inr (l, tr)"
    by (auto simp: epoch_body_def split: sum.splits)
  define st1 where "st1 = st\<lparr>train_loss := train_loss st @ [np_mean l], trace := tr\<rparr>"
  have nz: "eval_every p \<noteq> 0" using eb bl by (auto simp: epoch_body_def Let_def)
  define h where "h = valid_mrr (state_of r)"
  define w where "w = (if k = 0 then h else drop (length h - nat k) h)"
  have brk: "is_break r \<longleftrightarrow>
               int e mod eval_every p = 0 \<and> k \<le> int (length h) \<and> hd w = Max (set w)"
  proof (cases "int e mod eval_every p = 0")
    case False
    then have "r = Continue (scheduler_step p e st1)"
      unfolding st1_def using eb bl nz by (simp add: epoch_body_def Let_def)
    then show ?thesis using False by simp
  next
    case True
    define st2 where "st2 = evaluate p e st1"
    define w2 where
      "w2 = (if k = 0 then valid_mrr st2 else drop (length (valid_mrr st2) - nat k) (valid_mrr st2))"
    have ne: "valid_mrr st2 \<noteq> []" by (simp add: st2_def evaluate_simps)
    have t: "early_stop_test (early_stopping p) (valid_mrr st2)
               = Inr (k \<le> int (length (valid_mrr st2)) \<and> hd w2 = Max (set w2))"
      unfolding es w2_def by (rule early_stop_test_nonneg [OF k ne])
    have eb2: "epoch_body p e st =
      (case early_stop_test (early_stopping p) (valid_mrr st2) of
                      Inl err \<Rightarrow> Inl (err, trace st2)
                    | Inr True \<Rightarrow> Inr (Break (st2\<lparr>trace := trace st2 @ [EarlyStop e]\<rparr>))
                    | Inr False \<Rightarrow> Inr (Continue (scheduler_step p e st2)))"
      unfolding st1_def st2_def using bl nz True e1 by (simp add: epoch_body_def Let_def)
    have r: "r = (if k \<le> int (length (valid_mrr st2)) \<and> hd w2 = Max (set w2)
                  then Break (st2\<lparr>trace := trace st2 @ [EarlyStop e]\<rparr>)
                  else Continue (scheduler_step p e st2))"
      using eb unfolding eb2 t by (auto split: bool.splits)
    have v: "valid_mrr (state_of r) = valid_mrr st2"
      unfolding r by (simp add: scheduler_step_simps)
    have ww: "w = w2" by (simp add: w_def w2_def h_def v)
    show ?thesis unfolding h_def v ww using True by (simp add: r)
  qed
  have first: "(let h = valid_mrr (state_of r);
              w = (if k = 0 then h else drop (length h - nat k) h)
          in is_break r \<longleftrightarrow>
               int e mod eval_every p = 0 \<and> k \<le> int (length h) \<and> hd w = Max (set w))"
    unfolding Let_def using brk unfolding w_def h_def by simp
  have second: "if is_break r
           then epoch_loop p (Suc n) e st = Inr (state_of r)
              \<and> (\<exists>loss. returned (state_of r) =
                    ([], train_loss st @ [loss], [], [], [], [], [],
                     valid_acc st @ [hits_at_1 (val_testbench p e)],
                     valid_mrr st @ [mrr (val_testbench p e)],
                     valid_hits_3 st @ [hits_at_3 (val_testbench p e)],
                     valid_hits_5 st @ [hits_at_5 (val_testbench p e)],
                     valid_hits_10 st @ [hits_at_10 (val_testbench p e)]))
           else epoch_loop p (Suc n) e st = epoch_loop p n (Suc e) (state_of r)"
  proof (cases "is_break r")
    case False
    then show ?thesis using eb by (cases r) simp_all
  next
    case True
    then have lp: "epoch_loop p (Suc n) e st = Inr (state_of r)" using eb by (cases r) simp_all
    from epoch_body_shape [OF eb e1] obtain loss where
      tl: "train_loss (state_of r) = train_loss st @ [loss]" and
      md: "is_break r \<longrightarrow> int e mod eval_every p = 0" by (elim exE conjE)
    have md': "int e mod eval_every p = 0" using md True by simp
    note hs = epoch_body_histories [OF eb e1]
    have "returned (state_of r) =
                    ([], train_loss st @ [loss], [], [], [], [], [],
                     valid_acc st @ [hits_at_1 (val_testbench p e)],
                     valid_mrr st @ [mrr (val_testbench p e)],
                     valid_hits_3 st @ [hits_at_3 (val_testbench p e)],
                     valid_hits_5 st @ [hits_at_5 (val_testbench p e)],
                     valid_hits_10 st @ [hits_at_10 (val_testbench p e)])"
      unfolding returned_def tl hs(1) hs(2) hs(4) hs(5) hs(6) using md' by simp
    then show ?thesis using True lp by auto
  qed
  have third: "training_loop_gcn_value p =
               Inr ([], train_loss st', [], [], [], [], [],
                    valid_acc st', valid_mrr st', valid_hits_3 st', valid_hits_5 st',
                    valid_hits_10 st')
           \<and> length (train_loss st') = e'
           \<and> valid_acc st' = map (\<lambda>i. hits_at_1 (val_testbench p i))
                (filter (\<lambda>i. int i mod eval_every p = 0) [1..<Suc e'])
           \<and> valid_mrr st' = map (\<lambda>i. mrr (val_testbench p i))
                (filter (\<lambda>i. int i mod eval_every p = 0) [1..<Suc e'])
           \<and> valid_hits_3 st' = map (\<lambda>i. hits_at_3 (val_testbench p i))
                (filter (\<lambda>i. int i mod eval_every p = 0) [1..<Suc e'])
           \<and> valid_hits_5 st' = map (\<lambda>i. hits_at_5 (val_testbench p i))
                (filter (\<lambda>i. int i mod eval_every p = 0) [1..<Suc e'])
           \<and> valid_hits_10 st' = map (\<lambda>i. hits_at_10 (val_testbench p i))
                (filter (\<lambda>i. int i mod eval_every p = 0) [1..<Suc e'])
           \<and> (\<forall>i. DataFn i \<in> set (trace st') \<longleftrightarrow> 1 \<le> i \<and> i \<le> e')"
    if run: "training_loop_gcn p = Inr st'" and stop: "EarlyStop e' \<in> set (trace st')" for st' e'
  proof -
    from training_loop_ran [OF run] obtain m b where rn: "ran p m b st'" by blast
    note d = ranD [OF rn]
    from stop have m: "m = e'" unfolding d(11) by simp
    have val: "training_loop_gcn_value p =
               Inr ([], train_loss st', [], [], [], [], [],
                    valid_acc st', valid_mrr st', valid_hits_3 st', valid_hits_5 st',
                    valid_hits_10 st')"
      using value_of_run [OF run] by (simp add: returned_def)
    have dfn: "\<forall>i. DataFn i \<in> set (trace st') \<longleftrightarrow> 1 \<le> i \<and> i \<le> e'"
      unfolding d(8) m by simp
    show ?thesis
      using val dfn d(1) d(2) d(3) d(5) d(6) d(7) unfolding m evals_def by simp
  qed
  show ?thesis
    apply (rule conjI, rule first)
    apply (rule conjI, rule second)
    apply (intro allI impI)
    apply (erule conjE)
    apply (rule third, assumption+)
    done
qed

text \<open>
  The scenario of the specification: with the MRR sequence 0.5, 0.3, 0.2 and a window of 3
  the third epoch ends in \<open>break\<close>, and the call for ten epochs returns the histories of
  three epochs; a fourth epoch's batch iterator is never requested.
\<close>

theorem early_stopping_exact_witness:
  "epoch_body scenario_params 3 scenario_after2 = Inr (Break scenario_final)
   \<and> valid_mrr scenario_final = [0.5, 0.3, 0.2]
   \<and> epoch_loop scenario_params (Suc 7) 3 scenario_after2 = Inr scenario_final
   \<and> training_loop_gcn scenario_params = Inr scenario_final
   \<and> training_loop_gcn_value scenario_params =
       Inr ([], [Fin 1, Fin 1, Fin 1], [], [], [], [], [],
            [0, 0, 0], [0.5, 0.3, 0.2], [0, 0, 0], [0, 0, 0], [0, 0, 0])
   \<and> DataFn 3 \<in> set (trace scenario_final)
   \<and> DataFn 4 \<notin> set (trace scenario_final)"
proof -
  have es: "early_stopping scenario_params = Some 3" by (simp add: scenario_params_def)
  have k: "(0::int) \<le> 3" by simp
  have e1: "(1::nat) \<le> 3" by simp
  have eb: "epoch_body scenario_params 3 scenario_after2 = Inr (Break scenario_final)"
    by (rule scenario_epoch3)
  note th = early_stopping_exact [OF es k e1 eb, of 7]
  have lp: "epoch_loop scenario_params (Suc 7) 3 scenario_after2 = Inr scenario_final"
    using th by simp
  have stop: "EarlyStop 3 \<in> set (trace scenario_final)"
    by (simp add: scenario_final_def epoch_trace_def)
  have "training_loop_gcn_value scenario_params =
               Inr ([], train_loss scenario_final, [], [], [], [], [],
                    valid_acc scenario_final, valid_mrr scenario_final,
                    valid_hits_3 scenario_final, valid_hits_5 scenario_final,
                    valid_hits_10 scenario_final)"
    using th scenario_run stop by blast
  then have val: "training_loop_gcn_value scenario_params =
       Inr ([], [Fin 1, Fin 1, Fin 1], [], [], [], [], [],
            [0, 0, 0], [0.5, 0.3, 0.2], [0, 0, 0], [0, 0, 0], [0, 0, 0])"
    by (simp add: scenario_final_def)
  have m: "valid_mrr scenario_final = [0.5, 0.3, 0.2]" by (simp add: scenario_final_def)
  have d3: "DataFn 3 \<in> set (trace scenario_final)"
    by (simp add: scenario_final_def epoch_trace_def)
  have d4: "DataFn 4 \<notin> set (trace scenario_final)"
    by (simp add: scenario_final_def epoch_trace_def)
  show ?thesis using eb m lp scenario_run val d3 d4 by blast
qed

subsection \<open>Scheduler steps\<close>

text \<open>
  Claim C9, as the code has it. With a scheduler configured, a run that returns has
  stepped it exactly once in every epoch that ran, evaluated or not, except the epoch in
  which early stopping left the loop: \<open>break\<close> (line 135) comes before
  \<open>scheduler.step()\<close> (line 143), so that epoch has no step.
\<close>

theorem scheduler_steps:
  assumes "training_loop_gcn p = Inr st" and "scheduler p"
  shows "count_list (trace st) (SchedulerStep e) =
           (if DataFn e \<in> set (trace st) \<and> EarlyStop e \<notin> set (trace st) then 1 else 0)"
proof -
  from training_loop_ran [OF assms(1)] obtain m b where r: "ran p m b st" by blast
  note d = ranD [OF r]
  show ?thesis unfolding d(8) d(11) d(12) using assms(2) by auto
qed

theorem scheduler_steps_witness:
  "training_loop_gcn scenario_params = Inr scenario_final
   \<and> scheduler scenario_params
   \<and> count_list (trace scenario_final) (SchedulerStep 2) = 1
   \<and> count_list (trace scenario_final) (SchedulerStep 3) = 0"
proof -
  have run: "training_loop_gcn scenario_params = Inr scenario_final" by (rule scenario_run)
  have s: "scheduler scenario_params" by (simp add: scenario_params_def)
  have "count_list (trace scenario_final) (SchedulerStep 2) = 1"
    using scheduler_steps [OF run s, of 2] by (simp add: scenario_final_def epoch_trace_def)
  moreover have "count_list (trace scenario_final) (SchedulerStep 3) = 0"
    using scheduler_steps [OF run s, of 3] by (simp add: scenario_final_def epoch_trace_def)
  ultimately show ?thesis using run s by blast
qed

text \<open>
  Claim C9 as stated fails: with a window of one the first epoch runs, is evaluated and
  stops the loop, and the scheduler is never stepped.
\<close>

theorem scheduler_not_stepped_on_stop:
  "training_loop_gcn stop_at_once_params =
     Inr \<lparr>train_loss = [Fin 1], valid_acc = [0], valid_mrr = [0.5], valid_mr = [1],
          valid_hits_3 = [0], valid_hits_5 = [0], valid_hits_10 = [0],
          trace = [DataFn 1, ModelTrain 1, ZeroGrad 1 0, ModelCall 1 0, LossBackward 1 0,
                   ClipGradNorm 1 0, OptStep 1 0, NoGrad 1, ValTestbench 1, EarlyStop 1]\<rparr>"
  by code_simp

subsection \<open>The unassigned local of the batch loop\<close>

text \<open>
  Claim C10. Without \<open>qualifier_aware\<close>, a call that asks for at least one epoch and
  gets a non-empty batch iterator in the first one fails on its first batch with the
  undefined-name error for \<open>_quals\<close>: the gradients were zeroed, the model was not
  entered and no optimizer step was made. More generally, in a run without
  \<open>qualifier_aware\<close> that returns, every epoch that ran had an empty batch iterator.
\<close>

theorem unbound_quals:
  assumes "\<not> qualifier_aware p"
  shows "(1 \<le> epochs p \<and> data_fn p 1 \<noteq> []
            \<longrightarrow> training_loop_gcn p
                  = Inl (UnboundLocalError, [DataFn 1, ModelTrain 1, ZeroGrad 1 0]))
       \<and> (\<forall>st e. training_loop_gcn p = Inr st \<and> DataFn e \<in> set (trace st)
            \<longrightarrow> data_fn p e = [])"
proof -
  have a: "training_loop_gcn p = Inl (UnboundLocalError, [DataFn 1, ModelTrain 1, ZeroGrad 1 0])"
    if h: "1 \<le> epochs p" "data_fn p 1 \<noteq> []"
  proof -
    from h(1) obtain n where n: "nat (epochs p) = Suc n" by (cases "nat (epochs p)") auto
    have "batch_loop p 1 0 (data_fn p 1) [] (trace init_state @ [DataFn 1, ModelTrain 1])
            = Inl (UnboundLocalError, (trace init_state @ [DataFn 1, ModelTrain 1]) @ [ZeroGrad 1 0])"
      by (rule batch_loop_unbound [OF assms h(2)])
    then have "epoch_body p 1 init_state = Inl (UnboundLocalError, [DataFn 1, ModelTrain 1, ZeroGrad 1 0])"
      by (simp add: epoch_body_def init_state_def)
    then show ?thesis by (simp add: training_loop_gcn_def n)
  qed
  have b: "data_fn p e = []" if h: "training_loop_gcn p = Inr st" "DataFn e \<in> set (trace st)" for st e
  proof -
    from training_loop_ran [OF h(1)] obtain m b where r: "ran p m b st" by blast
    note d = ranD [OF r]
    from h(2) have "1 \<le> e" "e \<le> m" unfolding d(8) by simp_all
    then show ?thesis using d(13) [OF assms] by simp
  qed
  show ?thesis using a b by auto
qed

theorem unbound_quals_witness:
  "\<not> qualifier_aware unaware_params
   \<and> training_loop_gcn unaware_params
       = Inl (UnboundLocalError, [DataFn 1, ModelTrain 1, ZeroGrad 1 0])"
proof -
  have q: "\<not> qualifier_aware unaware_params" by (simp add: unaware_params_def)
  have "1 \<le> epochs unaware_params
        \<and> data_fn unaware_params 1 \<noteq> []"
    by (simp add: unaware_params_def scenario_params_def)
  then show ?thesis using unbound_quals [OF q] q by simp
qed

section \<open>Properties of the convolution layer\<close>

subsection \<open>Errors, indexing and scatter\<close>

lemma ebind_Inr_iff: "ebind m f = Inr r \<longleftrightarrow> (\<exists>v. m = Inr v \<and> f v = Inr r)"
  by (cases m) (simp_all add: ebind_def)

lemma ebind_Inr [simp]: "ebind (Inr v) f = f v"
  by (simp add: ebind_def)

lemma ebind_Inl [simp]: "ebind (Inl e) f = Inl e"
  by (simp add: ebind_def)

lemma index_rows_Inr_iff:
  "index_rows t idx = Inr r \<longleftrightarrow> (\<forall>i\<in>set idx. i < length t) \<and> r = map (\<lambda>i. t ! i) idx"
  by (auto simp: index_rows_def list_all_iff)

lemma elementwise_same: "length a = length b \<Longrightarrow> elementwise f a b = Inr (map2 f a b)"
  by (simp add: elementwise_def)

lemma scatter_loop_result:
  "scatter_loop src index out = Inr r \<Longrightarrow>
     length r = length out \<and> length src = length index \<and> (\<forall>i\<in>set index. i < length out)
     \<and> (\<forall>t<length out. r ! t = out ! t + sum_list (map fst (filter (\<lambda>(s, i). i = t) (zip src index))))"
proof (induction src index out arbitrary: r rule: scatter_loop.induct)
  case (1 out)
  then show ?case by simp
next
  case (2 s src i index out)
  from "2.prems" have i: "i < length out"
    and rec: "scatter_loop src index (out[i := out ! i + s]) = Inr r"
    by (simp_all split: if_splits)
  from "2.IH" [OF i rec] have
    len: "length r = length out" "length src = length index"
    and rng: "\<forall>j\<in>set index. j < length out"
    and val: "\<forall>t<length out. r ! t = (out[i := out ! i + s]) ! t
                 + sum_list (map fst (filter (\<lambda>(s, i). i = t) (zip src index)))"
    by simp_all
  have "r ! t = out ! t + sum_list (map fst (filter (\<lambda>(s, i). i = t) (zip (s # src) (i # index))))"
    if t: "t < length out" for t
  proof (cases "t = i")
    case True
    then show ?thesis using val t by (simp add: add.assoc)
  next
    case False
    then show ?thesis using val t by simp
  qed
  then show ?case using len rng i by simp
next
  case (3 i index out)
  then show ?case by simp
next
  case (4 s src out)
  then show ?case by simp
qed

lemma scatter_loop_succeeds:
  "length src = length index \<Longrightarrow> \<forall>i\<in>set index. i < length out \<Longrightarrow>
     \<exists>r. scatter_loop src index out = Inr r"
proof (induction src index out rule: scatter_loop.induct)
  case (2 s src i index out)
  then show ?case by simp
qed simp_all

lemma scatter_add_result:
  assumes "scatter_add src index n = Inr r"
  shows "length r = n" and "length src = length index" and "\<forall>i\<in>set index. i < n"
    and "\<forall>t<n. r ! t = sum_list (map fst (filter (\<lambda>(s, i). i = t) (zip src index)))"
  using scatter_loop_result [of src index "replicate n 0" r] assms
  by (simp_all add: scatter_add_def)

lemma scatter_add_succeeds:
  "length src = length index \<Longrightarrow> \<forall>i\<in>set index. i < n \<Longrightarrow> \<exists>r. scatter_add src index n = Inr r"
  using scatter_loop_succeeds [of src index "replicate n 0"] by (simp add: scatter_add_def)



lemma sum_ones_count:
  "sum_list (map fst (filter (\<lambda>(s, i). i = t) (zip (map (\<lambda>r. 1 :: real) row) row))) = real (count_list row t)"
  by (induction row) auto

subsection \<open>The composition operator\<close>

text \<open>
  Claim C5. \<open>comp_func\<close> fails with \<open>NotImplementedError\<close> (the specification's
  \<open>UnsupportedOperatorError\<close>) for every selector other than the four that the source
  names \<open>corr\<close>, \<open>sub\<close>, \<open>mult\<close> and \<open>rotate\<close>, whatever its arguments are; the
  layer object holds any selector, so the failure comes with the first call. For the four
  names it never fails so, and it returns a result on tensors of equal length.
\<close>

theorem comp_func_selector:
  "(opn c \<notin> {''corr'', ''sub'', ''mult'', ''rotate''}
      \<longrightarrow> comp_func eng c ent_embed rel_embed = Inl NotImplementedError)
   \<and> (opn c \<in> {''corr'', ''sub'', ''mult'', ''rotate''}
      \<longrightarrow> comp_func eng c ent_embed rel_embed \<noteq> Inl NotImplementedError
        \<and> (length ent_embed = length rel_embed
             \<longrightarrow> (\<exists>r. comp_func eng c ent_embed rel_embed = Inr r)))"
  by (auto simp: comp_func_def elementwise_def)

theorem comp_func_selector_witness:
  "comp_func toy_engine (toy_conv\<lparr>opn := ''add''\<rparr>) [3] [1] = Inl NotImplementedError
   \<and> comp_func toy_engine toy_conv [3] [1] = Inr [2]"
proof -
  have a: "opn (toy_conv\<lparr>opn := ''add''\<rparr>) \<notin> {''corr'', ''sub'', ''mult'', ''rotate''}" by simp
  have "comp_func toy_engine (toy_conv\<lparr>opn := ''add''\<rparr>) [3] [1] = Inl NotImplementedError"
    using comp_func_selector [of "toy_conv\<lparr>opn := ''add''\<rparr>" toy_engine "[3]" "[1]"] a by blast
  moreover have "comp_func toy_engine toy_conv [3] [1] = Inr [2]"
    by (simp add: comp_func_def toy_conv_def elementwise_def)
  ultimately show ?thesis by blast
qed

subsection \<open>Degree normalisation\<close>

lemma deg_inv_row:
  assumes "v < n"
  shows "map (\<lambda>d. if d = PInf then Fin 0 else d) (map pow_neg_half (map (\<lambda>t. real (count_list row t)) [0..<n])) ! v
     = Fin (deg_inv_of row v)"
  using assms by (simp add: pow_neg_half_def deg_inv_of_def head_degree_def)

text \<open>
  Claim C6, as the code has it. For an edge list whose entries are entities below \<open>n\<close>,
  \<open>compute_norm\<close> returns one weight per edge, the product of the inverse square roots
  of the degrees of its two entities, with zero in place of the infinity of a degree of
  zero: every weight is a finite float. The degree of an entity is the number of edges
  that have it in their first row, as their head (source); when every entity is the head
  of exactly one edge, every weight is 1.
\<close>

theorem compute_norm_weights:
  assumes len: "length row = length col"
      and row: "\<forall>v\<in>set row. v < n" and col: "\<forall>v\<in>set col. v < n"
  shows "\<exists>ws. compute_norm (row, col) n = Inr ws
           \<and> length ws = length row
           \<and> (\<forall>k<length row. ws ! k = Fin (deg_inv_of row (row ! k) * deg_inv_of row (col ! k)))
           \<and> ((\<forall>v<n. head_degree row v = 1) \<longrightarrow> (\<forall>w\<in>set ws. w = Fin 1))"
proof -
  let ?ones = "map (\<lambda>r. 1 :: real) row"
  from scatter_add_succeeds [of ?ones row n] row obtain deg where
    deg: "scatter_add ?ones row n = Inr deg" by auto
  note sr = scatter_add_result [OF deg]
  have degv: "deg = map (\<lambda>t. real (count_list row t)) [0..<n]"
    using sr(1) sr(4) by (intro nth_equalityI) (simp_all add: sum_ones_count)
  define deg_inv where
    "deg_inv = map (\<lambda>d. if d = PInf then Fin 0 else d) (map pow_neg_half deg)"
  have dl: "length deg_inv = n" using sr(1) by (simp add: deg_inv_def)
  have dv: "deg_inv ! v = Fin (deg_inv_of row v)" if "v < n" for v
    unfolding deg_inv_def degv by (rule deg_inv_row [OF that])
  define ws where "ws = map2 fmul (map2 fmul (map (\<lambda>i. deg_inv ! i) row) (map Fin ?ones))
                               (map (\<lambda>i. deg_inv ! i) col)"
  have ir: "index_rows deg_inv row = Inr (map (\<lambda>i. deg_inv ! i) row)"
    using row dl by (simp add: index_rows_Inr_iff)
  have ic: "index_rows deg_inv col = Inr (map (\<lambda>i. deg_inv ! i) col)"
    using col dl by (simp add: index_rows_Inr_iff)
  have cn: "compute_norm (row, col) n = Inr ws"
    unfolding compute_norm_def Let_def fst_conv snd_conv deg ebind_Inr
      deg_inv_def [symmetric] ir ic
    using len by (simp add: elementwise_same ws_def)
  have wl: "length ws = length row" using len by (simp add: ws_def)
  have wv: "ws ! k = Fin (deg_inv_of row (row ! k) * deg_inv_of row (col ! k))"
    if k: "k < length row" for k
  proof -
    have "row ! k < n" "col ! k < n" using k len row col by auto
    then show ?thesis using k len by (simp add: ws_def dv)
  qed
  have one: "\<forall>w\<in>set ws. w = Fin 1" if h: "\<forall>v<n. head_degree row v = 1"
  proof
    fix w assume "w \<in> set ws"
    then obtain k where k: "k < length row" "w = ws ! k"
      using wl by (auto simp: in_set_conv_nth)
    have "row ! k < n" "col ! k < n" using k len row col by auto
    then have "deg_inv_of row (row ! k) = 1" "deg_inv_of row (col ! k) = 1"
      using h by (simp_all add: deg_inv_of_def)
    then show "w = Fin 1" using wv [OF k(1)] k(2) by simp
  qed
  show ?thesis using cn wl wv one by blast
qed

text \<open>
  A cycle over three entities has all weights 1; with two edges that leave entity 0 and
  none that leaves entity 1, the edge that ends at entity 1 has weight 0, neither
  \<open>nan\<close> nor \<open>inf\<close>.
\<close>

theorem compute_norm_weights_witness:
  "compute_norm ([0, 1, 2], [1, 2, 0]) 3 = Inr [Fin 1, Fin 1, Fin 1]
   \<and> compute_norm ([0, 0], [0, 1]) 2 = Inr [Fin (1 / 2), Fin 0]"
proof -
  have a: "compute_norm ([0, 1, 2], [1, 2, 0]) 3 = Inr [Fin 1, Fin 1, Fin 1]"
  proof -
    have h: "length [0, 1, 2 :: nat] = length [1, 2, 0 :: nat]"
      "\<forall>v\<in>set [0, 1, 2 :: nat]. v < 3" "\<forall>v\<in>set [1, 2, 0 :: nat]. v < 3" by simp_all
    from compute_norm_weights [OF h] obtain ws where
      ws: "compute_norm ([0, 1, 2], [1, 2, 0]) 3 = Inr ws" "length ws = length [0, 1, 2 :: nat]"
        "(\<forall>v<3. head_degree [0, 1, 2] v = 1) \<longrightarrow> (\<forall>w\<in>set ws. w = Fin 1)" by blast
    have "head_degree [0, 1, 2] v = 1" if "v < 3" for v
    proof -
      from that have "v = 0 \<or> v = 1 \<or> v = 2" by arith
      then show ?thesis by (auto simp: head_degree_def)
    qed
    then have "\<forall>w\<in>set ws. w = Fin 1" using ws(3) by blast
    then have "ws = replicate (length ws) (Fin 1)" by (intro replicate_eqI) simp_all
    then have "ws = [Fin 1, Fin 1, Fin 1]" using ws(2) by (simp add: numeral_3_eq_3)
    then show ?thesis using ws(1) by simp
  qed
  have b: "compute_norm ([0, 0], [0, 1]) 2 = Inr [Fin (1 / 2), Fin 0]"
  proof -
    have h: "length [0, 0 :: nat] = length [0, 1 :: nat]"
      "\<forall>v\<in>set [0, 0 :: nat]. v < 2" "\<forall>v\<in>set [0, 1 :: nat]. v < 2" by simp_all
    from compute_norm_weights [OF h] obtain ws where
      ws: "compute_norm ([0, 0], [0, 1]) 2 = Inr ws" "length ws = length [0, 0 :: nat]"
        "\<forall>k<length [0, 0 :: nat]. ws ! k
           = Fin (deg_inv_of [0, 0] ([0, 0] ! k) * deg_inv_of [0, 0] ([0, 1] ! k))" by blast
    have d0: "deg_inv_of [0, 0] 0 = 1 / sqrt 2" by (simp add: deg_inv_of_def head_degree_def)
    have d1: "deg_inv_of [0, 0] (Suc 0) = 0" by (simp add: deg_inv_of_def head_degree_def)
    have "ws ! 0 = Fin (1 / 2)" using ws(3) d0 by simp
    moreover have "ws ! 1 = Fin 0" using ws(3) d0 d1 by simp
    moreover have "ws = [ws ! 0, ws ! 1]" using ws(2) by (intro nth_equalityI) (auto simp: less_Suc_eq)
    ultimately have "ws = [Fin (1 / 2), Fin 0]" by simp
    then show ?thesis using ws(1) by simp
  qed
  show ?thesis using a b by blast
qed

text \<open>
  Claim C6 as stated fails: in the edge list with the edges 0 to 0 and 0 to 1 every entity
  has exactly one incoming edge, and the weights are 1/2 and 0, not 1.
\<close>

theorem one_incoming_edge_not_weight_one:
  "in_degree ([0, 0], [0, 1]) 0 = 1
   \<and> in_degree ([0, 0], [0, 1]) 1 = 1
   \<and> compute_norm ([0, 0], [0, 1]) 2 = Inr [Fin (1 / 2), Fin 0]"
proof -
  have "1 / sqrt 2 * (1 / sqrt 2) = (1 / 2 :: real)" by (simp add: field_simps)
  then show ?thesis
    by (simp add: in_degree_def compute_norm_def scatter_add_def index_rows_def
          elementwise_def pow_neg_half_def numeral_2_eq_2)
qed

subsection \<open>Qualifier coalescing\<close>







text \<open>
  The whole layer under the \<open>qual\<close> propagation, on a graph of three entities with
  the edge 0 to 1 of relation 0, its inverse, and two qualifiers of relation 1 on it: the
  message toward the subject has one edge, so \<open>rel_sub_embs\<close> has one row, and the
  qualifier relation id 1 selects no row of it.
\<close>

lemma toy_qual_prepare:
  "prepare (toy_conv\<lparr>device := Some ''cpu''\<rparr>) ''qual'' toy_x toy_edge_index toy_edge_type
     toy_rel_embed toy_quals
   = Inr \<lparr>a_rel_emb_all = [1, 2, 3, 4, 0], a_in_index = ([0], [1]),
        a_out_index = ([2], [0]), a_in_type = [0], a_out_type = [3],
        a_in_index_qual_ent = [2], a_out_index_qual_ent = [2],
        a_in_index_qual_rel = [1], a_out_index_qual_rel = [1],
        a_quals_index_in = [0], a_quals_index_out = [0],
        a_loop_index = ([0, 1, 2], [0, 1, 2]), a_loop_type = [4, 4, 4],
        a_both_obj_in = None, a_both_obj_out = None, a_trip_rel_in = None,
        a_trip_rel_out = None, a_in_place = OnInputs, a_out_place = OnLayer,
        a_loop_place = OnLayer\<rparr>"
  by code_simp

lemma toy_qual_norm_in: "compute_norm ([0], [1]) 3 = Inr [Fin 0]"
  by (simp add: compute_norm_def scatter_add_def index_rows_def elementwise_def
        pow_neg_half_def numeral_3_eq_3)

lemma toy_qual_norm_out: "compute_norm ([2], [0]) 3 = Inr [Fin 0]"
  by (simp add: compute_norm_def scatter_add_def index_rows_def elementwise_def
        pow_neg_half_def numeral_3_eq_3)

lemma toy_qual_in_res:
  "propagate toy_engine (toy_conv\<lparr>device := Some ''cpu''\<rparr>) ''cpu'' OnInputs ([0], [1]) toy_x
     \<lparr>m_edge_type = [0], m_rel_embed = [1, 2, 3, 4, 0],
      m_edge_norm = Some [Fin 0], m_mode = MIn, m_ent_embed = Some toy_x,
      m_qualifier_ent = Some [2], m_qualifier_rel = Some [1], m_qual_index = Some [0],
      m_prop_type = Some ''qual'', m_both_obj_index = None, m_trip_rel = None,
      m_aux_ent_embs = None, m_aux_rel_embs = None,
      m_entity_index = Some ([0], [1])\<rparr> = Inl IndexError"
  by code_simp

lemma toy_forward_qual:
  "forward toy_engine toy_conv ''cpu'' r1 r2 ''qual'' toy_x toy_edge_index toy_edge_type
     toy_rel_embed toy_quals None None = Inl IndexError"
proof -
  have d: "device toy_conv = None" by (simp add: toy_conv_def)
  have l: "length toy_x = 3" by (simp add: toy_x_def)
  have ag: "aggregates toy_engine (toy_conv\<lparr>device := Some ''cpu''\<rparr>) ''cpu'' ''qual'' toy_x
        \<lparr>a_rel_emb_all = [1, 2, 3, 4, 0], a_in_index = ([0], [1]),
        a_out_index = ([2], [0]), a_in_type = [0], a_out_type = [3],
        a_in_index_qual_ent = [2], a_out_index_qual_ent = [2],
        a_in_index_qual_rel = [1], a_out_index_qual_rel = [1],
        a_quals_index_in = [0], a_quals_index_out = [0],
        a_loop_index = ([0, 1, 2], [0, 1, 2]), a_loop_type = [4, 4, 4],
        a_both_obj_in = None, a_both_obj_out = None, a_trip_rel_in = None,
        a_trip_rel_out = None, a_in_place = OnInputs, a_out_place = OnLayer,
        a_loop_place = OnLayer\<rparr> None None = Inl IndexError"
    unfolding aggregates_def Let_def l
    by (simp add: toy_qual_norm_in [unfolded One_nat_def] toy_qual_norm_out
          toy_qual_in_res [unfolded One_nat_def])
  have c1: "(if device toy_conv = None then toy_conv\<lparr>device := Some ''cpu''\<rparr> else toy_conv)
              = toy_conv\<lparr>device := Some ''cpu''\<rparr>"
    by (simp add: d)
  show ?thesis
    unfolding forward_def Let_def c1 toy_qual_prepare ebind_Inr ag by simp
qed

subsection \<open>The edges of the \<open>both\<close> propagation\<close>

text \<open>
  Under \<open>both\<close> the forward edges run from the qualifier entity to the subject of the
  parent triple and the inverse edges back, typed by the qualifier relation (with the
  offset \<open>num_rels\<close> on the inverse half); the carried object ids are the second-row
  entries of the edge list at the parent indices; the carried relation ids are the
  qualifier relation ids of the forward half.
\<close>

lemma prepare_both_carried:
  assumes "prepare c ''both'' x edge_index edge_type rel_embed quals = Inr a"
  shows "a_both_obj_in a = Some (map (\<lambda>p. snd edge_index ! p) (a_quals_index_in a))"
    and "a_both_obj_out a = Some (map (\<lambda>p. snd edge_index ! p) (a_quals_index_out a))"
    and "a_trip_rel_in a = Some (a_in_index_qual_rel a)"
    and "a_trip_rel_out a = Some (a_in_index_qual_rel a)"
    and "a_in_index a = (a_in_index_qual_ent a, map (\<lambda>p. fst edge_index ! p) (a_quals_index_in a))"
    and "a_out_index a = (map (\<lambda>p. fst edge_index ! p) (a_quals_index_in a), a_in_index_qual_ent a)"
    and "a_in_type a = a_in_index_qual_rel a"
    and "a_out_type a = map (\<lambda>r. r + num_rels c) (a_out_index_qual_rel a)"
  using assms
  by (auto simp: prepare_def Let_def ebind_Inr_iff index_rows_Inr_iff assign_row_def
           split: if_splits)

text \<open>
  Claim C3, at a concrete graph. The triple (0, relation 0, 1) has the qualifier
  (relation 1, entity 2). Under \<open>both\<close> the carried object id is 1, the object of the
  triple, as the claim says; but the carried relation ids \<open>trip_rel_in\<close> and
  \<open>trip_rel_out\<close> are 1, the qualifier's relation, where the relation of the triple at
  the parent index is 0: line 110 reads \<open>in_type\<close> after line 102 has set it to the
  qualifier relations.
\<close>

theorem both_carries_qualifier_relation:
  "prepare toy_conv ''both'' toy_x toy_edge_index toy_edge_type toy_rel_embed toy_quals
     = Inr toy_prepared_both
   \<and> a_both_obj_in toy_prepared_both = Some [1]
   \<and> a_trip_rel_in toy_prepared_both = Some [1]
   \<and> a_trip_rel_out toy_prepared_both = Some [1]
   \<and> index_rows toy_edge_type (a_quals_index_in toy_prepared_both) = Inr [0]"
  by code_simp

subsection \<open>The forward pass in evaluation mode\<close>

text \<open>
  What a message computes does not depend on the device that the layer has stored, and
  neither do the prepared index tensors; the stored device decides only where the created
  tensors live.
\<close>

lemma weight_of_device: "weight_of (c\<lparr>device := d\<rparr>) m = weight_of c m"
  by (cases m) simp_all

lemma comp_func_device: "comp_func eng (c\<lparr>device := d\<rparr>) = comp_func eng c"
  by (intro ext) (simp add: comp_func_def)

lemma combine_trips_device: "combine_trips eng (c\<lparr>device := d\<rparr>) = combine_trips eng c"
  by (intro ext) (simp add: combine_trips_def comp_func_device)

lemma combine_quals_device: "combine_quals eng (c\<lparr>device := d\<rparr>) = combine_quals eng c"
  by (intro ext) (simp add: combine_quals_def comp_func_device cong: if_cong)

lemma combine_quals_trips_device:
  "combine_quals_trips eng (c\<lparr>device := d\<rparr>) = combine_quals_trips eng c"
  by (intro ext) (simp add: combine_quals_trips_def comp_func_device)

lemma qual_inverse_edges_device:
  "qual_inverse_edges (c\<lparr>device := d\<rparr>) = qual_inverse_edges c"
  by (intro ext) (simp add: qual_inverse_edges_def)

lemma message_comp_device: "message_comp eng (c\<lparr>device := d\<rparr>) = message_comp eng c"
  by (intro ext)
     (simp add: message_comp_def comp_func_device combine_trips_device combine_quals_device
        combine_quals_trips_device cong: if_cong option.case_cong)

lemma message_device: "message eng (c\<lparr>device := d\<rparr>) = message eng c"
  by (intro ext) (simp add: message_def message_comp_device weight_of_device cong: if_cong option.case_cong)

lemma prepare_device: "prepare (c\<lparr>device := d\<rparr>) = prepare c"
  by (intro ext) (simp add: prepare_def qual_inverse_edges_device Let_def cong: if_cong)

lemma propagate_on:
  "device_of c dev place = Some dev \<Longrightarrow>
     propagate eng c dev place ei x m =
       ebind (index_rows x (fst ei)) (\<lambda>x_i.
       ebind (index_rows x (snd ei)) (\<lambda>x_j.
       ebind (message eng c x_i x_j m) (\<lambda>msgs.
       scatter_add msgs (fst ei) (length x))))"
  by (simp add: propagate_def)

lemma propagate_needs_device:
  "propagate eng c dev place ei x m = Inr r \<Longrightarrow> device_of c dev place = Some dev"
  by (simp add: propagate_def split: if_splits)

lemma propagate_length: "propagate eng c dev place ei x m = Inr r \<Longrightarrow> length r = length x"
  by (auto simp: propagate_def ebind_Inr_iff split: if_splits dest: scatter_add_result(1))

lemma aggregates_length:
  assumes "aggregates eng c dev pt x a ae ar = Inr (in_res, out_res, loop_res)"
  shows "length in_res = length x" "length out_res = length x" "length loop_res = length x"
  using assms
  by (auto simp: aggregates_def Let_def ebind_Inr_iff dest: propagate_length)

lemma aggregates_needs_device:
  assumes "aggregates eng c dev pt x a ae ar = Inr z"
  shows "device_of c dev (a_loop_place a) = Some dev"
  using assms
  by (auto simp: aggregates_def Let_def ebind_Inr_iff dest: propagate_needs_device)

lemma prepare_loop_place:
  assumes "prepare c pt x ei et re q = Inr a"
  shows "a_loop_place a = OnLayer"
  using assms
  by (auto simp: prepare_def Let_def ebind_Inr_iff split: if_splits)

text \<open>
  A forward pass that returns was given inputs on the device that the layer had stored, or
  found no device stored: the self-loop index is created on the stored device and selects
  rows of \<open>x\<close>.
\<close>

lemma forward_needs_device:
  assumes "forward eng c dev r1 r2 pt x ei et re q ae ar = Inr z"
  shows "device c = None \<or> device c = Some dev"
proof -
  define c1 where "c1 = (if device c = None then c\<lparr>device := Some dev\<rparr> else c)"
  from assms obtain a t where
    a: "prepare c1 pt x ei et re q = Inr a" and
    ag: "aggregates eng c1 dev pt x a ae ar = Inr t"
    unfolding forward_def Let_def c1_def [symmetric] by (auto simp: ebind_Inr_iff)
  have "device_of c1 dev OnLayer = Some dev"
    using aggregates_needs_device [OF ag] prepare_loop_place [OF a] by simp
  then have "device c1 = Some dev" by simp
  then show ?thesis by (auto simp: c1_def split: if_splits)
qed

text \<open>
  The forward pass of a layer in evaluation mode, with the dropout calls resolved; \<open>D\<close>
  is the device that the layer holds after the lazy assignment.
\<close>

lemma forward_eval:
  assumes tr: "\<not> training c"
  shows "forward eng c dev r1 r2 pt x ei et re q ae ar =
     ebind (prepare c pt x ei et re q) (\<lambda>a.
     ebind (aggregates eng (c\<lparr>device := (if device c = None then Some dev else device c)\<rparr>)
              dev pt x a ae ar) (\<lambda>(in_res, out_res, loop_res).
       Inr (act c (bn_eval eng (bn_state c)
              (map (\<lambda>k. (1 / 3) *\<^sub>R (in_res ! k + out_res ! k + loop_res ! k)) [0..<length x])),
            butlast (map (w_rel c) (a_rel_emb_all a)),
            c\<lparr>device := (if device c = None then Some dev else device c)\<rparr>)))"
proof -
  define D where "D = (if device c = None then Some dev else device c)"
  have c1: "(if device c = None then c\<lparr>device := Some dev\<rparr> else c) = c\<lparr>device := D\<rparr>"
    by (simp add: D_def)
  show ?thesis
  proof (cases "prepare c pt x ei et re q")
    case (Inl e)
    then show ?thesis
      unfolding forward_def c1 Let_def by (simp add: prepare_device)
  next
    case (Inr a)
    show ?thesis
    proof (cases "aggregates eng (c\<lparr>device := D\<rparr>) dev pt x a ae ar")
      case (Inl e)
      then show ?thesis
        unfolding forward_def c1 Let_def D_def [symmetric] using Inr by (simp add: prepare_device)
    next
      case ag: (Inr t)
      obtain in_res out_res loop_res where t: "t = (in_res, out_res, loop_res)"
        by (cases t) auto
      note len = aggregates_length [OF ag [unfolded t]]
      have e1: "elementwise (\<lambda>u v. u + v) (map (\<lambda>r. (1 / 3) *\<^sub>R r) in_res)
                    (map (\<lambda>r. (1 / 3) *\<^sub>R r) out_res)
                  = Inr (map2 (\<lambda>u v. u + v) (map (\<lambda>r. (1 / 3) *\<^sub>R r) in_res)
                    (map (\<lambda>r. (1 / 3) *\<^sub>R r) out_res))"
        using len by (intro elementwise_same) simp
      have e2: "elementwise (\<lambda>u v. u + v)
                    (map2 (\<lambda>u v. u + v) (map (\<lambda>r. (1 / 3) *\<^sub>R r) in_res)
                       (map (\<lambda>r. (1 / 3) *\<^sub>R r) out_res))
                    (map (\<lambda>r. (1 / 3) *\<^sub>R r) loop_res)
                  = Inr (map2 (\<lambda>u v. u + v)
                    (map2 (\<lambda>u v. u + v) (map (\<lambda>r. (1 / 3) *\<^sub>R r) in_res)
                       (map (\<lambda>r. (1 / 3) *\<^sub>R r) out_res))
                    (map (\<lambda>r. (1 / 3) *\<^sub>R r) loop_res))"
        using len by (intro elementwise_same) simp
      have m: "map2 (\<lambda>u v. u + v)
                    (map2 (\<lambda>u v. u + v) (map (\<lambda>r. (1 / 3) *\<^sub>R r) in_res)
                       (map (\<lambda>r. (1 / 3) *\<^sub>R r) out_res))
                    (map (\<lambda>r. (1 / 3) *\<^sub>R r) loop_res)
             = map (\<lambda>k. (1 / 3) *\<^sub>R (in_res ! k + out_res ! k + loop_res ! k)) [0..<length x]"
        using len by (intro nth_equalityI) (simp_all add: scaleR_add_right)
      show ?thesis
        unfolding forward_def c1 Let_def D_def [symmetric]
        using Inr ag tr
        by (simp add: prepare_device t dropout_def e1 e2 m batch_norm_def)
    qed
  qed
qed

text \<open>
  Claim C8. When the layer is in evaluation mode and \<open>forward\<close> returns, the entity
  output is the nonlinearity of the normalisation of the rows
  \<open>(in_res + out_res + loop_res) / 3\<close>, the three aggregated contributions weighted
  1/3 each, and the layer is left as it was but for the stored device, which is the device
  of the inputs. The outputs are determined by the weights and the inputs: with the same
  inputs and any other dropout randomness the same layer returns the same outputs, and so
  does a second call on the layer as the first call left it, which it leaves unchanged. A
  later call that returns has its inputs on the same device. (Arithmetic is exact: the
  order of floating-point additions in the engine's scatter is not modelled.)
\<close>

theorem forward_eval_deterministic:
  assumes tr: "\<not> training c"
      and fw: "forward eng c dev rnd_in rnd_out prop_type x edge_index edge_type rel_embed quals
                 aux_ents aux_rels = Inr (out, rel_out, c')"
  shows "\<exists>a in_res out_res loop_res.
           prepare c prop_type x edge_index edge_type rel_embed quals = Inr a
         \<and> aggregates eng c' dev prop_type x a aux_ents aux_rels
             = Inr (in_res, out_res, loop_res)
         \<and> length in_res = length x \<and> length out_res = length x \<and> length loop_res = length x
         \<and> out = act c (bn_eval eng (bn_state c)
                   (map (\<lambda>k. (1 / 3) *\<^sub>R (in_res ! k + out_res ! k + loop_res ! k))
                      [0..<length x]))
         \<and> rel_out = butlast (map (w_rel c) (rel_embed @ [loop_rel c]))
         \<and> c' = c\<lparr>device := Some dev\<rparr>
         \<and> (\<forall>r1 r2.
               forward eng c dev r1 r2 prop_type x edge_index edge_type rel_embed quals
                 aux_ents aux_rels = Inr (out, rel_out, c'))
         \<and> (\<forall>r1 r2.
               forward eng c' dev r1 r2 prop_type x edge_index edge_type rel_embed quals
                 aux_ents aux_rels = Inr (out, rel_out, c'))
         \<and> (\<forall>dev' r1 r2 z.
               forward eng c' dev' r1 r2 prop_type x edge_index edge_type rel_embed quals
                 aux_ents aux_rels = Inr z \<longrightarrow> dev' = dev)"
proof -
  have D: "(if device c = None then Some dev else device c) = Some dev"
    using forward_needs_device [OF fw] by auto
  from fw [unfolded forward_eval [OF tr] D] obtain a t where
    a: "prepare c prop_type x edge_index edge_type rel_embed quals = Inr a" and
    ag: "aggregates eng (c\<lparr>device := Some dev\<rparr>) dev prop_type x a aux_ents aux_rels = Inr t" and
    r: "(case t of (in_res, out_res, loop_res) \<Rightarrow>
       Inr (act c (bn_eval eng (bn_state c)
              (map (\<lambda>k. (1 / 3) *\<^sub>R (in_res ! k + out_res ! k + loop_res ! k)) [0..<length x])),
            butlast (map (w_rel c) (a_rel_emb_all a)),
            c\<lparr>device := Some dev\<rparr>)) = Inr (out, rel_out, c')"
    by (auto simp: ebind_Inr_iff)
  obtain in_res out_res loop_res where t: "t = (in_res, out_res, loop_res)" by (cases t) auto
  from r have
    out: "out = act c (bn_eval eng (bn_state c)
              (map (\<lambda>k. (1 / 3) *\<^sub>R (in_res ! k + out_res ! k + loop_res ! k)) [0..<length x]))"
    and rel: "rel_out = butlast (map (w_rel c) (a_rel_emb_all a))"
    and c': "c' = c\<lparr>device := Some dev\<rparr>"
    by (simp_all add: t)
  have ra: "a_rel_emb_all a = rel_embed @ [loop_rel c]"
    using a by (auto simp: prepare_def Let_def ebind_Inr_iff split: if_splits)
  note len = aggregates_length [OF ag [unfolded t]]
  have same: "forward eng c dev r1 r2 prop_type x edge_index edge_type rel_embed quals
                 aux_ents aux_rels = Inr (out, rel_out, c')" for r1 r2
    unfolding forward_eval [OF tr] D using a ag by (simp add: t out rel c')
  have tr': "\<not> training c'" using tr by (simp add: c')
  have again: "forward eng c' dev r1 r2 prop_type x edge_index edge_type rel_embed quals
                 aux_ents aux_rels = Inr (out, rel_out, c')" for r1 r2
    unfolding forward_eval [OF tr'] unfolding c'
    using a ag by (simp add: prepare_device t out rel)
  have other: "dev' = dev"
    if "forward eng c' dev' r1 r2 prop_type x edge_index edge_type rel_embed quals
                 aux_ents aux_rels = Inr z" for dev' r1 r2 z
    using forward_needs_device [OF that] by (simp add: c')
  have ag': "aggregates eng c' dev prop_type x a aux_ents aux_rels
             = Inr (in_res, out_res, loop_res)" using ag by (simp add: c' t)
  show ?thesis using a ag' len out rel [unfolded ra] c' same again other by blast
qed

text \<open>The forward pass over the two-entity graph, evaluated.\<close>

lemma ring_prepare:
  "prepare toy_conv ''trip'' ring_x ring_edge_index ring_edge_type toy_rel_embed ring_quals
     = Inr ring_prepared"
  by code_simp

lemma ring_norm_in: "compute_norm ([0, 1], [1, 0]) 2 = Inr [Fin 1, Fin 1]"
  by (simp add: compute_norm_def scatter_add_def index_rows_def elementwise_def pow_neg_half_def
        numeral_2_eq_2)

lemma ring_norm_out: "compute_norm ([1, 0], [0, 1]) 2 = Inr [Fin 1, Fin 1]"
  by (simp add: compute_norm_def scatter_add_def index_rows_def elementwise_def pow_neg_half_def
        numeral_2_eq_2)

lemma ring_in_res:
  "propagate toy_engine (toy_conv\<lparr>device := Some ''cpu''\<rparr>) ''cpu'' OnInputs ([0, 1], [1, 0])
     ring_x
     \<lparr>m_edge_type = [0, 0], m_rel_embed = [1, 2, 3, 4, 0],
      m_edge_norm = Some [Fin 1, Fin 1], m_mode = MIn, m_ent_embed = Some ring_x,
      m_qualifier_ent = Some [1], m_qualifier_rel = Some [1], m_qual_index = Some [0],
      m_prop_type = Some ''trip'', m_both_obj_index = None, m_trip_rel = None,
      m_aux_ent_embs = None, m_aux_rel_embs = None,
      m_entity_index = Some ([0, 1], [1, 0])\<rparr> = Inr [38, 18]"
  by code_simp

lemma ring_out_res:
  "propagate toy_engine (toy_conv\<lparr>device := Some ''cpu''\<rparr>) ''cpu'' OnInputs ([1, 0], [0, 1])
     ring_x
     \<lparr>m_edge_type = [2, 2], m_rel_embed = [1, 2, 3, 4, 0],
      m_edge_norm = Some [Fin 1, Fin 1], m_mode = MOut, m_ent_embed = Some ring_x,
      m_qualifier_ent = Some [1], m_qualifier_rel = Some [1], m_qual_index = Some [0],
      m_prop_type = Some ''trip'', m_both_obj_index = None, m_trip_rel = None,
      m_aux_ent_embs = None, m_aux_rel_embs = None,
      m_entity_index = Some ([1, 0], [0, 1])\<rparr> = Inr [51, 21]"
  by code_simp

lemma ring_loop_res:
  "propagate toy_engine (toy_conv\<lparr>device := Some ''cpu''\<rparr>) ''cpu'' OnLayer ([0, 1], [0, 1])
     ring_x
     \<lparr>m_edge_type = [4, 4], m_rel_embed = [1, 2, 3, 4, 0],
      m_edge_norm = None, m_mode = MLoop, m_ent_embed = None,
      m_qualifier_ent = None, m_qualifier_rel = None, m_qual_index = None,
      m_prop_type = Some ''trip'', m_both_obj_index = None, m_trip_rel = None,
      m_aux_ent_embs = None, m_aux_rel_embs = None,
      m_entity_index = None\<rparr> = Inr [10, 20]"
  by code_simp

lemma ring_aggregates:
  "aggregates toy_engine (toy_conv\<lparr>device := Some ''cpu''\<rparr>) ''cpu'' ''trip'' ring_x
     ring_prepared None None
     = Inr ([38, 18], [51, 21], [10, 20])"
proof -
  have l: "length ring_x = 2" by (simp add: ring_x_def)
  show ?thesis
    unfolding aggregates_def Let_def l
    by (simp add: ring_prepared_def ring_norm_in [unfolded One_nat_def]
          ring_norm_out [unfolded One_nat_def] ring_in_res [unfolded One_nat_def]
          ring_out_res [unfolded One_nat_def] ring_loop_res [unfolded One_nat_def])
qed

lemma ring_forward:
  "forward toy_engine toy_conv ''cpu'' r1 r2 ''trip'' ring_x ring_edge_index ring_edge_type
     toy_rel_embed ring_quals None None
   = Inr ([33, 59 / 3], [1, 2, 3, 4], toy_conv\<lparr>device := Some ''cpu''\<rparr>)"
proof -
  have t: "\<not> training toy_conv" by (simp add: toy_conv_def)
  have l: "[0..<length ring_x] = [0, 1]" by (simp add: ring_x_def upt_rec)
  have d: "device toy_conv = None" "act toy_conv = (\<lambda>t. t)" "w_rel toy_conv = (\<lambda>v. v)"
    by (simp_all add: toy_conv_def)
  have b: "bn_eval toy_engine = (\<lambda>s t. t)" by (simp add: toy_engine_def)
  have p: "a_rel_emb_all ring_prepared = [1, 2, 3, 4, 0]" by (simp add: ring_prepared_def)
  have D: "(if device toy_conv = None then Some ''cpu'' else device toy_conv) = Some ''cpu''"
    by (simp add: d)
  show ?thesis
    unfolding forward_eval [OF t] D ring_prepare ebind_Inr ring_aggregates l
    by (simp add: d b p)
qed

text \<open>
  The layer that has stored the device \<open>cpu\<close>, called with the same graph on another
  device: the forward and the inverse propagation go through, the self-loop propagation
  selects rows with an index on \<open>cpu\<close> and fails.
\<close>

lemma ring_in_res_moved:
  "propagate toy_engine (toy_conv\<lparr>device := Some ''cpu''\<rparr>) ''gpu'' OnInputs ([0, 1], [1, 0])
     ring_x
     \<lparr>m_edge_type = [0, 0], m_rel_embed = [1, 2, 3, 4, 0],
      m_edge_norm = Some [Fin 1, Fin 1], m_mode = MIn, m_ent_embed = Some ring_x,
      m_qualifier_ent = Some [1], m_qualifier_rel = Some [1], m_qual_index = Some [0],
      m_prop_type = Some ''trip'', m_both_obj_index = None, m_trip_rel = None,
      m_aux_ent_embs = None, m_aux_rel_embs = None,
      m_entity_index = Some ([0, 1], [1, 0])\<rparr> = Inr [38, 18]"
  by code_simp

lemma ring_out_res_moved:
  "propagate toy_engine (toy_conv\<lparr>device := Some ''cpu''\<rparr>) ''gpu'' OnInputs ([1, 0], [0, 1])
     ring_x
     \<lparr>m_edge_type = [2, 2], m_rel_embed = [1, 2, 3, 4, 0],
      m_edge_norm = Some [Fin 1, Fin 1], m_mode = MOut, m_ent_embed = Some ring_x,
      m_qualifier_ent = Some [1], m_qualifier_rel = Some [1], m_qual_index = Some [0],
      m_prop_type = Some ''trip'', m_both_obj_index = None, m_trip_rel = None,
      m_aux_ent_embs = None, m_aux_rel_embs = None,
      m_entity_index = Some ([1, 0], [0, 1])\<rparr> = Inr [51, 21]"
  by code_simp

lemma loop_index_elsewhere:
  "propagate eng (toy_conv\<lparr>device := Some ''cpu''\<rparr>) ''gpu'' OnLayer ei x m = Inl RuntimeError"
  by (simp add: propagate_def)

lemma ring_forward_moved:
  "forward toy_engine (toy_conv\<lparr>device := Some ''cpu''\<rparr>) ''gpu'' r1 r2 ''trip'' ring_x
     ring_edge_index ring_edge_type toy_rel_embed ring_quals None None
   = Inl RuntimeError"
proof -
  have l: "length ring_x = 2" by (simp add: ring_x_def)
  have p: "prepare (toy_conv\<lparr>device := Some ''cpu''\<rparr>) ''trip'' ring_x ring_edge_index
             ring_edge_type toy_rel_embed ring_quals = Inr ring_prepared"
    by (simp add: prepare_device ring_prepare)
  have ag: "aggregates toy_engine (toy_conv\<lparr>device := Some ''cpu''\<rparr>) ''gpu'' ''trip'' ring_x
     ring_prepared None None = Inl RuntimeError"
    unfolding aggregates_def Let_def l
    by (simp add: ring_prepared_def ring_norm_in [unfolded One_nat_def]
          ring_norm_out [unfolded One_nat_def] ring_in_res_moved [unfolded One_nat_def]
          ring_out_res_moved [unfolded One_nat_def] loop_index_elsewhere)
  show ?thesis
    unfolding forward_def Let_def by (simp add: p ag)
qed

theorem forward_eval_deterministic_witness:
  "\<not> training toy_conv
   \<and> forward toy_engine toy_conv ''cpu'' (\<lambda>t. t) (\<lambda>t. t) ''trip'' ring_x ring_edge_index
       ring_edge_type toy_rel_embed ring_quals None None
     = Inr ([33, 59 / 3], [1, 2, 3, 4], toy_conv\<lparr>device := Some ''cpu''\<rparr>)
   \<and> forward toy_engine (toy_conv\<lparr>device := Some ''cpu''\<rparr>) ''cpu'' (map (\<lambda>v. 0))
       (map (\<lambda>v. 2 * v)) ''trip'' ring_x ring_edge_index ring_edge_type toy_rel_embed
       ring_quals None None
     = Inr ([33, 59 / 3], [1, 2, 3, 4], toy_conv\<lparr>device := Some ''cpu''\<rparr>)
   \<and> forward toy_engine (toy_conv\<lparr>device := Some ''cpu''\<rparr>) ''gpu'' (\<lambda>t. t) (\<lambda>t. t)
       ''trip'' ring_x ring_edge_index ring_edge_type toy_rel_embed ring_quals None None
     = Inl RuntimeError"
proof -
  have t: "\<not> training toy_conv" by (simp add: toy_conv_def)
  have f: "forward toy_engine toy_conv ''cpu'' (\<lambda>t. t) (\<lambda>t. t) ''trip'' ring_x ring_edge_index
       ring_edge_type toy_rel_embed ring_quals None None
     = Inr ([33, 59 / 3], [1, 2, 3, 4], toy_conv\<lparr>device := Some ''cpu''\<rparr>)"
    by (rule ring_forward)
  from forward_eval_deterministic [OF t f] have
    "\<forall>r1 r2. forward toy_engine (toy_conv\<lparr>device := Some ''cpu''\<rparr>) ''cpu'' r1 r2 ''trip''
        ring_x ring_edge_index ring_edge_type toy_rel_embed ring_quals None None
      = Inr ([33, 59 / 3], [1, 2, 3, 4], toy_conv\<lparr>device := Some ''cpu''\<rparr>)"
    by blast
  then show ?thesis using t f ring_forward_moved by blast
qed

section \<open>Properties of the top-level model\<close>

lemma matmul_Inr_iff:
  "matmul a w = Inr y \<longleftrightarrow> (\<forall>r\<in>set a. length r = length w) \<and> y = map (\<lambda>r. row_times r w) a"
  by (auto simp: matmul_def list_all_iff)

lemma cat_dim1_Inr_iff:
  "cat_dim1 a b = Inr c \<longleftrightarrow> length a = length b \<and> c = map2 (\<lambda>u v. u @ v) a b"
  by (auto simp: cat_dim1_def)

lemma row_times_length: "length (row_times r w) = width w"
  by (simp add: row_times_def)

text \<open>
  Claim C2, as the code has it. When the parallel flag is set and the embedding stage of
  \<open>forward\<close> returns, which it does before it reads the batch: unless
  \<open>ONLY-TRIPS\<close> is set, the qualifier encoder has run on the original entity
  embeddings and on the relation embeddings that the triple encoder returned; its entity
  output is joined row by row, after the triple encoder's, along the feature axis; each
  joined row is multiplied with the fusion matrix, which gives rows of the matrix's width;
  dropout (the identity outside training) and then the layer normalisation are applied;
  the relation output is the qualifier encoder's. With \<open>ONLY-TRIPS\<close> set the triple
  encoder's output is used as it is.
\<close>

theorem parallel_fusion:
  assumes par: "parallel m"
      and ok: "encode m rnd = Inr (x, r)"
  shows "(\<not> only_trips m \<longrightarrow>
           (\<exists>x1 r1 xq y.
              trip_encoder m ''trip'' (ent_embs m) (rel_embs m) = Inr (x1, r1)
            \<and> qual_encoder m ''qual'' (ent_embs m) r1 = Inr (xq, r)
            \<and> length x1 = length xq \<and> length y = length x1
            \<and> (\<forall>i<length x1. y ! i = row_times (x1 ! i @ xq ! i) (ent_parallel_matrix m)
                   \<and> length (y ! i) = width (ent_parallel_matrix m))
            \<and> x = ent_parallel_lnorm m (if model_training m then rnd y else y)))
       \<and> (only_trips m \<longrightarrow>
            trip_encoder m ''trip'' (ent_embs m) (rel_embs m) = Inr (x, r))"
proof (intro conjI impI)
  assume ot: "\<not> only_trips m"
  from ok par ot obtain x1 r1 where
    te: "trip_encoder m ''trip'' (ent_embs m) (rel_embs m) = Inr (x1, r1)" and
    pf: "parallel_forward m rnd x1 (ent_embs m) r1 = Inr (x, r)"
    by (auto simp: encode_def Let_def ebind_Inr_iff)
  from pf obtain xq rq joined y where
    qe: "qual_encoder m ''qual'' (ent_embs m) r1 = Inr (xq, rq)" and
    ct: "cat_dim1 x1 xq = Inr joined" and
    mm: "matmul joined (ent_parallel_matrix m) = Inr y" and
    res: "x = ent_parallel_lnorm m (if model_training m then rnd y else y)" "r = rq"
    by (auto simp: parallel_forward_def Let_def ebind_Inr_iff)
  from ct have len: "length x1 = length xq" and j: "joined = map2 (\<lambda>u v. u @ v) x1 xq"
    by (simp_all add: cat_dim1_Inr_iff)
  from mm have y: "y = map (\<lambda>r. row_times r (ent_parallel_matrix m)) joined"
    by (simp add: matmul_Inr_iff)
  have yl: "length y = length x1" using len by (simp add: y j)
  have yi: "y ! i = row_times (x1 ! i @ xq ! i) (ent_parallel_matrix m)
                \<and> length (y ! i) = width (ent_parallel_matrix m)" if "i < length x1" for i
    using that len by (simp add: y j row_times_length)
  show "\<exists>x1 r1 xq y.
              trip_encoder m ''trip'' (ent_embs m) (rel_embs m) = Inr (x1, r1)
            \<and> qual_encoder m ''qual'' (ent_embs m) r1 = Inr (xq, r)
            \<and> length x1 = length xq \<and> length y = length x1
            \<and> (\<forall>i<length x1. y ! i = row_times (x1 ! i @ xq ! i) (ent_parallel_matrix m)
                   \<and> length (y ! i) = width (ent_parallel_matrix m))
            \<and> x = ent_parallel_lnorm m (if model_training m then rnd y else y)"
    using te qe res len yl yi by blast
next
  assume "only_trips m"
  with ok show "trip_encoder m ''trip'' (ent_embs m) (rel_embs m) = Inr (x, r)"
    by (auto simp: encode_def Let_def ebind_Inr_iff)
qed

lemma fusion_encode: "encode fusion_model (\<lambda>t. t) = Inr ([[4], [7]], [[12], [14]])"
  by code_simp

lemma fusion_encode_only_trips:
  "encode (fusion_model\<lparr>only_trips := True\<rparr>) (\<lambda>t. t) = Inr ([[2], [3]], [[6], [7]])"
  by code_simp

theorem parallel_fusion_witness:
  "parallel fusion_model \<and> \<not> only_trips fusion_model
   \<and> encode fusion_model (\<lambda>t. t) = Inr ([[4], [7]], [[12], [14]])
   \<and> trip_encoder fusion_model ''trip'' (ent_embs fusion_model) (rel_embs fusion_model)
       = Inr ([[2], [3]], [[6], [7]])
   \<and> qual_encoder fusion_model ''qual'' (ent_embs fusion_model) [[6], [7]]
       = Inr ([[2], [4]], [[12], [14]])
   \<and> parallel (fusion_model\<lparr>only_trips := True\<rparr>) \<and> only_trips (fusion_model\<lparr>only_trips := True\<rparr>)
   \<and> encode (fusion_model\<lparr>only_trips := True\<rparr>) (\<lambda>t. t) = Inr ([[2], [3]], [[6], [7]])
   \<and> trip_encoder (fusion_model\<lparr>only_trips := True\<rparr>) ''trip''
       (ent_embs (fusion_model\<lparr>only_trips := True\<rparr>)) (rel_embs (fusion_model\<lparr>only_trips := True\<rparr>))
       = Inr ([[2], [3]], [[6], [7]])"
proof -
  have p: "parallel fusion_model" and o: "\<not> only_trips fusion_model"
    by (simp_all add: fusion_model_def)
  from parallel_fusion [OF p fusion_encode] o obtain x1 r1 xq where
    te: "trip_encoder fusion_model ''trip'' (ent_embs fusion_model) (rel_embs fusion_model)
           = Inr (x1, r1)" and
    qe: "qual_encoder fusion_model ''qual'' (ent_embs fusion_model) r1 = Inr (xq, [[12], [14]])"
    by blast
  have te': "trip_encoder fusion_model ''trip'' (ent_embs fusion_model) (rel_embs fusion_model)
       = Inr ([[2], [3]], [[6], [7]])" by (simp add: fusion_model_def)
  from te te' have "r1 = [[6], [7]]" by simp
  moreover have "qual_encoder fusion_model ''qual'' (ent_embs fusion_model) [[6], [7]]
       = Inr ([[2], [4]], [[12], [14]])" by (simp add: fusion_model_def)
  ultimately have first: "parallel fusion_model \<and> \<not> only_trips fusion_model
   \<and> encode fusion_model (\<lambda>t. t) = Inr ([[4], [7]], [[12], [14]])
   \<and> trip_encoder fusion_model ''trip'' (ent_embs fusion_model) (rel_embs fusion_model)
       = Inr ([[2], [3]], [[6], [7]])
   \<and> qual_encoder fusion_model ''qual'' (ent_embs fusion_model) [[6], [7]]
       = Inr ([[2], [4]], [[12], [14]])"
    using p o fusion_encode te' by blast
  have p': "parallel (fusion_model\<lparr>only_trips := True\<rparr>)"
    and o': "only_trips (fusion_model\<lparr>only_trips := True\<rparr>)"
    by (simp_all add: fusion_model_def)
  from parallel_fusion [OF p' fusion_encode_only_trips] o' have
    "trip_encoder (fusion_model\<lparr>only_trips := True\<rparr>) ''trip''
       (ent_embs (fusion_model\<lparr>only_trips := True\<rparr>)) (rel_embs (fusion_model\<lparr>only_trips := True\<rparr>))
       = Inr ([[2], [3]], [[6], [7]])" by blast
  with first p' o' fusion_encode_only_trips show ?thesis by blast
qed

text \<open>
  Claim C2 as stated fails. In the model \<open>fusion_model\<close> the qualifier encoder doubles
  what it is given: the relation output is the double of the triple encoder's output
  (12, 14), not of the original relation embeddings (10, 12), which the embedding stage as
  specified would return. And with \<open>ONLY-TRIPS\<close> set the parallel flag has no effect:
  the triple encoder's output is returned as it is.
\<close>

theorem parallel_not_on_original_relations:
  "encode fusion_model (\<lambda>t. t) = Inr ([[4], [7]], [[12], [14]])
   \<and> encode_as_specified fusion_model (\<lambda>t. t) = Inr ([[4], [7]], [[10], [12]])
   \<and> encode (fusion_model\<lparr>only_trips := True\<rparr>) (\<lambda>t. t) = Inr ([[2], [3]], [[6], [7]])"
  by code_simp

end
